theory Spec2Isabelle
  imports Main "HOL-Library.Sublist" "HOL-Library.Signed_Division"
begin

section \<open>Bytes, lines and text\<close>

text \<open>
  A file is the list of its bytes; \<open>char\<close> is an 8-bit value, so a byte string and a
  decoded text are both \<open>string\<close>. The log files are opened in binary mode and read
  line by line: a line ends after each byte 0x0A, and the last line may lack it.
\<close>

type_synonym bytes = string

definition newline :: char where
  "newline = CHR 0x0A"

fun readlines :: "bytes \<Rightarrow> bytes \<Rightarrow> bytes list" where
  "readlines acc [] = (if acc = [] then [] else [rev acc])"
| "readlines acc (c # cs) =
     (if c = newline then rev (c # acc) # readlines [] cs else readlines (c # acc) cs)"

text \<open>\<open>for line in fid\<close> after \<open>fid.seek(off, 0)\<close>: the lines of the bytes from \<open>off\<close> on.\<close>

definition lines_from :: "nat \<Rightarrow> bytes \<Rightarrow> bytes list" where
  "lines_from off content = readlines [] (drop off content)"

text \<open>\<open>line.decode('ascii', 'ignore')\<close> drops every byte above 127.\<close>

definition decode_ascii :: "bytes \<Rightarrow> string" where
  "decode_ascii bs = filter (\<lambda>c. (of_char c :: nat) < 128) bs"

text \<open>
  Whitespace of \<open>str.strip()\<close> and of the class \<open>\s\<close> on ASCII text: the bytes 9 to 13,
  28 to 31 and the blank.
\<close>

definition is_space :: "char \<Rightarrow> bool" where
  "is_space c = (let n = (of_char c :: nat) in (9 \<le> n \<and> n \<le> 13) \<or> (28 \<le> n \<and> n \<le> 32))"

definition is_digit :: "char \<Rightarrow> bool" where
  "is_digit c = (let n = (of_char c :: nat) in 48 \<le> n \<and> n \<le> 57)"

definition strip :: "string \<Rightarrow> string" where
  "strip s = rev (dropWhile is_space (rev (dropWhile is_space s)))"

section \<open>The regular expressions of the module\<close>

text \<open>
  Every pattern of the module is an alternation of sequences of one-character classes,
  each with a quantifier \<open>?\<close>, \<open>*\<close>, \<open>+\<close> or none, optionally anchored by \<open>^\<close>.
  \<open>match_atoms\<close> is the backtracking matcher of Python's \<open>re\<close> restricted to that
  fragment: a greedy quantifier tries the longest run first, an alternation tries its
  branches in order, and the first success is the match. It returns the length matched.
\<close>

datatype cclass = Lit char | Digit | Space | Dot | Among "(char \<times> char) list"

fun in_class :: "cclass \<Rightarrow> char \<Rightarrow> bool" where
  "in_class (Lit a) c = (c = a)"
| "in_class Digit c = is_digit c"
| "in_class Space c = is_space c"
| "in_class Dot c = (c \<noteq> newline)"
| "in_class (Among rs) c =
     list_ex (\<lambda>(lo, hi). (of_char lo :: nat) \<le> of_char c \<and> (of_char c :: nat) \<le> of_char hi) rs"

datatype quant = One | Opt | Star | Plus

type_synonym atom = "cclass \<times> quant"

datatype regex = Regex (anchored: bool) (alts: "atom list list")

primrec first_some :: "('a \<Rightarrow> 'b option) \<Rightarrow> 'a list \<Rightarrow> 'b option" where
  "first_some f [] = None"
| "first_some f (x # xs) = (case f x of Some y \<Rightarrow> Some y | None \<Rightarrow> first_some f xs)"

text \<open>The repetition counts a quantifier tries, in order, when \<open>n\<close> characters are available.\<close>

fun counts :: "quant \<Rightarrow> nat \<Rightarrow> nat list" where
  "counts One n = (if 0 < n then [1] else [])"
| "counts Opt n = (if 0 < n then [1, 0] else [0])"
| "counts Star n = rev [0..<Suc n]"
| "counts Plus n = rev [1..<Suc n]"

primrec match_atoms :: "atom list \<Rightarrow> string \<Rightarrow> nat option" where
  "match_atoms [] s = Some 0"
| "match_atoms (a # as) s =
     first_some (\<lambda>k. map_option (\<lambda>m. k + m) (match_atoms as (drop k s)))
       (counts (snd a) (length (takeWhile (in_class (fst a)) s)))"

text \<open>\<open>pattern.match(s)\<close>: a match at position 0, as the length matched.\<close>

definition re_match :: "regex \<Rightarrow> string \<Rightarrow> nat option" where
  "re_match r s = first_some (\<lambda>as. match_atoms as s) (alts r)"

definition matches :: "regex \<Rightarrow> string \<Rightarrow> bool" where
  "matches r s = (re_match r s \<noteq> None)"

text \<open>
  The leftmost non-overlapping matches of a pattern in a string, each with the text
  before it, and the text after the last one. No pattern of the module matches the
  empty string; a match of length 0 is passed over.
\<close>

function re_scan :: "regex \<Rightarrow> string \<Rightarrow> string \<Rightarrow> (string \<times> string) list \<times> string" where
  "re_scan r gap [] = ([], rev gap)"
| "re_scan r gap (c # cs) =
     (case re_match r (c # cs) of
        Some (Suc n) \<Rightarrow>
          (let rest = re_scan r [] (drop n cs)
           in ((rev gap, c # take n cs) # fst rest, snd rest))
      | _ \<Rightarrow> re_scan r (c # gap) cs)"
  by pat_completeness auto
termination
  by (relation "measure (\<lambda>(r, gap, s). length s)") auto

definition re_pieces :: "regex \<Rightarrow> string \<Rightarrow> (string \<times> string) list \<times> string" where
  "re_pieces r s =
     (if anchored r then
        (case re_match r s of
           Some (Suc n) \<Rightarrow> ([([], take (Suc n) s)], drop (Suc n) s)
         | _ \<Rightarrow> ([], s))
      else re_scan r [] s)"

text \<open>\<open>pattern.findall(s)\<close>, \<open>pattern.sub(repl, s)\<close> and \<open>pattern.split(s)\<close>.\<close>

definition findall :: "regex \<Rightarrow> string \<Rightarrow> string list" where
  "findall r s = map snd (fst (re_pieces r s))"

definition re_sub :: "regex \<Rightarrow> string \<Rightarrow> string \<Rightarrow> string" where
  "re_sub r repl s =
     (let p = re_pieces r s in concat (map (\<lambda>(gap, hit). gap @ repl) (fst p)) @ snd p)"

definition re_split :: "regex \<Rightarrow> string \<Rightarrow> string list" where
  "re_split r s = (let p = re_pieces r s in map fst (fst p) @ [snd p])"

definition lit :: "string \<Rightarrow> atom list" where
  "lit s = map (\<lambda>c. (Lit c, One)) s"

definition sign :: cclass where
  "sign = Among [(CHR ''+'', CHR ''+''), (CHR ''-'', CHR ''-'')]"

definition either :: "char \<Rightarrow> char \<Rightarrow> cclass" where
  "either a b = Among [(a, a), (b, b)]"

definition SPEC_time_format :: regex where
  "SPEC_time_format = Regex False
     [[(Digit, One), (Digit, One), (Lit CHR '':'', One), (Digit, One), (Digit, One),
       (Lit CHR '':'', One), (Digit, One), (Digit, One)]]"

definition SPEC_multi_blank :: regex where
  "SPEC_multi_blank = Regex False [[(Space, Plus)]]"

definition SPEC_multi_blank2 :: regex where
  "SPEC_multi_blank2 = Regex False [[(Space, One), (Space, Plus)]]"

definition SPEC_int_value :: regex where
  "SPEC_int_value = Regex False [[(sign, Opt), (Digit, Plus)]]"

definition SPEC_num_value :: regex where
  "SPEC_num_value = Regex False
     [[(sign, Opt), (Digit, Star), (Lit CHR ''.'', Star), (Digit, Star),
       (either CHR ''e'' CHR ''E'', Star), (sign, Star), (Digit, Plus)],
      [(sign, Opt), (either CHR ''I'' CHR ''i'', One), (either CHR ''N'' CHR ''n'', One),
       (either CHR ''F'' CHR ''f'', One)],
      [(either CHR ''N'' CHR ''n'', One), (either CHR ''A'' CHR ''a'', One),
       (either CHR ''N'' CHR ''n'', One)]]"

definition SPEC_dataline :: regex where
  "SPEC_dataline = Regex True [[(sign, Star), (Digit, One), (Dot, Star)]]"

definition SPEC_scan :: regex where
  "SPEC_scan = Regex True [lit ''#RUN'']"

definition SPEC_cmd :: regex where
  "SPEC_cmd = Regex True [lit ''#CMD'']"

definition SPEC_initmoponames :: regex where
  "SPEC_initmoponames = Regex False [lit ''#MOT'']"

definition SPEC_initmopopos :: regex where
  "SPEC_initmopopos = Regex False [lit ''#VAL'']"

definition SPEC_datetime :: regex where
  "SPEC_datetime = Regex True [lit ''#TIM'']"

definition SPEC_exptime :: regex where
  "SPEC_exptime = Regex True [lit ''#T'']"

definition SPEC_nofcols :: regex where
  "SPEC_nofcols = Regex True [lit ''#N'']"

definition SPEC_colnames :: regex where
  "SPEC_colnames = Regex True [lit ''#COL'']"

definition SPEC_MCAFormat :: regex where
  "SPEC_MCAFormat = Regex True [lit ''#@MCA'']"

definition SPEC_MCAChannels :: regex where
  "SPEC_MCAChannels = Regex True [lit ''#@CHANN'']"

definition SPEC_headerline :: regex where
  "SPEC_headerline = Regex True [lit ''#'']"

definition comment_body :: cclass where
  "comment_body = Among [(CHR ''a'', CHR ''z''), (CHR ''A'', CHR ''Z''), (CHR ''0'', CHR ''9''),
     (CHR '':'', CHR '':''), (CHR '' '', CHR '' ''), (CHR ''.'', CHR ''.'')]"

definition SPEC_scanbroken :: regex where
  "SPEC_scanbroken = Regex False [lit ''#C'' @ [(comment_body, Star)] @ lit ''Scan aborted'']"

definition SPEC_scanresumed :: regex where
  "SPEC_scanresumed = Regex False [lit ''#C'' @ [(comment_body, Star)] @ lit ''Scan resumed'']"

definition SPEC_commentline :: regex where
  "SPEC_commentline = Regex False [lit ''#ATT'']"

definition SPEC_newheader :: regex where
  "SPEC_newheader = Regex True [lit ''#E'']"

definition SPEC_errorbm20 :: regex where
  "SPEC_errorbm20 = Regex True [lit ''MI:'']"

section \<open>Builtin conversions\<close>

datatype error = IndexError | ValueError | TypeError | UnboundLocalError | NameError
  | IOError | ZeroDivisionError

text \<open>
  \<open>int(s)\<close> on text: surrounding whitespace is ignored, then an optional sign and
  decimal digits, where single underscores may separate digits. Anything else raises
  ValueError, which is \<open>None\<close> here.
\<close>

fun py_digits :: "nat \<Rightarrow> bool \<Rightarrow> string \<Rightarrow> nat option" where
  "py_digits acc ok [] = (if ok then Some acc else None)"
| "py_digits acc ok (c # cs) =
     (if is_digit c then py_digits (10 * acc + (of_char c - 48)) True cs
      else if c = CHR ''_'' \<and> ok then py_digits acc False cs
      else None)"

definition py_int :: "string \<Rightarrow> int option" where
  "py_int s =
     (case strip s of
        c # cs \<Rightarrow>
          (if c = CHR ''-'' then map_option (\<lambda>n. - int n) (py_digits 0 False cs)
           else if c = CHR ''+'' then map_option int (py_digits 0 False cs)
           else map_option int (py_digits 0 False (c # cs)))
      | [] \<Rightarrow> None)"

text \<open>\<open>"%i" % n\<close>: the decimal digits of an integer, with a minus sign when negative.\<close>

fun nat_digits :: "nat \<Rightarrow> string" where
  "nat_digits n =
     (if n < 10 then [char_of (48 + n)] else nat_digits (n div 10) @ [char_of (48 + n mod 10)])"

declare nat_digits.simps [simp del]

definition str_int :: "int \<Rightarrow> string" where
  "str_int i = (if i < 0 then CHR ''-'' # nat_digits (nat (- i)) else nat_digits (nat i))"

text \<open>Sequencing of calls that may raise: the first error ends the computation.\<close>

definition ebind :: "error + 'a \<Rightarrow> ('a \<Rightarrow> error + 'b) \<Rightarrow> error + 'b" where
  "ebind m f = (case m of Inl e \<Rightarrow> Inl e | Inr x \<Rightarrow> f x)"

definition need :: "'a option \<Rightarrow> error + 'a" where
  \<comment> \<open>reading a local variable: UnboundLocalError when it was never assigned\<close>
  "need v = (case v of None \<Rightarrow> Inl UnboundLocalError | Some x \<Rightarrow> Inr x)"

definition item :: "'a list \<Rightarrow> nat \<Rightarrow> error + 'a" where
  \<comment> \<open>\<open>xs[i]\<close> for a literal index \<open>i \<ge> 0\<close>\<close>
  "item xs i = (if i < length xs then Inr (xs ! i) else Inl IndexError)"

definition to_int :: "string \<Rightarrow> error + int" where
  "to_int s = (case py_int s of None \<Rightarrow> Inl ValueError | Some i \<Rightarrow> Inr i)"

section \<open>Scan records\<close>

datatype status = OK | NODATA | ABORTED | CORRUPTED

text \<open>
  One row of a data table: the scalar fields and, for a scan with spectra, the list of
  channel counts.
\<close>

type_synonym 'f row = "'f list \<times> int list option"

text \<open>
  A scan object. \<open>PalSpecScan\<close> adds no attribute to its parent class \<open>SPECScan\<close>: the
  fields are the constructor arguments, the change flag, the spectral parameters, and
  the header and data that \<open>ReadData\<close> fills in. The type \<open>'f\<close> stands for Python's
  floats.
\<close>

record 'f scan =
  name :: string
  nr :: int
  command :: string
  date :: string
  time :: string
  itime :: 'f
  colnames :: "string list"
  hoffset :: nat
  doffset :: "nat option"
  fname :: string
  imopnames :: "string list"
  imopvalues :: "'f list"
  scan_status :: status
  ischanged :: bool
  has_mca :: bool
  mca_column_format :: int
  mca_channels :: int
  mca_start_channel :: int
  mca_stop_channel :: int
  mca_nof_lines :: int
  header :: "string list"
  data :: "'f row list option"

text \<open>
  Modelled from the spec: the constructor of \<open>PalSpecScan\<close> only calls the constructor
  of the parent class \<open>SPECScan\<close>, which belongs to the xrayutilities library and is
  not part of the source. It is taken to store its arguments as the fields of the scan
  record of the specification (section 3), with the change flag set, no spectral
  parameters, and no header or data yet. What the library does beyond that, such as
  renaming column names that occur twice, is not modelled.
\<close>

definition PalSpecScan ::
  "string \<Rightarrow> int \<Rightarrow> string \<Rightarrow> string \<Rightarrow> string \<Rightarrow> 'f \<Rightarrow> string list \<Rightarrow> nat \<Rightarrow> nat option \<Rightarrow>
   string \<Rightarrow> string list \<Rightarrow> 'f list \<Rightarrow> status \<Rightarrow> 'f scan" where
  "PalSpecScan name' scannr' command' date' time' itime' colnames' hoffset' doffset' fname'
     imopnames' imopvalues' scan_status' =
     \<lparr>name = name', nr = scannr', command = command', date = date', time = time',
      itime = itime', colnames = colnames', hoffset = hoffset', doffset = doffset',
      fname = fname', imopnames = imopnames', imopvalues = imopvalues',
      scan_status = scan_status', ischanged = True, has_mca = False, mca_column_format = 0,
      mca_channels = 0, mca_start_channel = 0, mca_stop_channel = 0, mca_nof_lines = 0,
      header = [], data = None\<rparr>"

text \<open>
  Modelled from the spec: \<open>SetMCAParams\<close> is a method of the parent class \<open>SPECScan\<close>
  and not part of the source. It is taken to store the spectral parameters and the
  number of lines one spectrum takes, the channel count divided by the number of
  values per line and rounded up (section 4.4), and to raise ZeroDivisionError when
  that number is 0. The library computes the quotient in floating point, which the
  integer division here follows only as long as the numbers are represented exactly.
\<close>

definition SetMCAParams :: "'f scan \<Rightarrow> int \<Rightarrow> int \<Rightarrow> int \<Rightarrow> int \<Rightarrow> error + 'f scan" where
  "SetMCAParams s fmt chans start stop =
     (if fmt = 0 then Inl ZeroDivisionError
      else Inr (s\<lparr>has_mca := True, mca_column_format := fmt, mca_channels := chans,
                  mca_start_channel := start, mca_stop_channel := stop,
                  mca_nof_lines := chans sdiv fmt + (if chans mod fmt \<noteq> 0 then 1 else 0)\<rparr>))"

section \<open>The environment of the parser\<close>

text \<open>
  What the module takes from outside: the builtin \<open>float\<close> (\<open>None\<close> for ValueError) and
  \<open>numpy.nan\<close>; the path \<open>data_file\<close> that the folder, the file name template and a scan
  number give; the files on disk, by path; and \<open>numpy.rec.fromrecords\<close> applied to the
  rows, the column names and the channel count of the spectral column (\<open>None\<close> for
  ValueError).
\<close>

record 'f world =
  py_float :: "string \<Rightarrow> 'f option"
  nan :: 'f
  data_file :: "int \<Rightarrow> string"
  files :: "string \<Rightarrow> bytes option"
  fromrecords :: "'f row list \<Rightarrow> string list \<Rightarrow> int option \<Rightarrow> 'f row list option"

definition to_float :: "'f world \<Rightarrow> string \<Rightarrow> error + 'f" where
  "to_float W s = (case py_float W s of None \<Rightarrow> Inl ValueError | Some x \<Rightarrow> Inr x)"

section \<open>PalSpecFile: the state and one parse pass\<close>

record 'f specfile =
  full_filename :: string
  scan_list :: "'f scan list"
  last_offset :: "nat option"
  scan_in_list :: "int list"
  curr_scan_nb :: int
  init_motor_names_fh :: "string list"
  init_motor_names_sh :: "string list"
  init_motor_names :: "string list"

text \<open>
  The local variables of \<open>Parse\<close>. A variable that a line of the file assigns is
  \<open>None\<close> until then; the suffix \<open>_l\<close> tells a local from the scan attribute of the
  same name.
\<close>

record 'f locals =
  scan_started :: bool
  scan_has_mca :: bool
  init_motor_values :: "'f list"
  scannr :: "int option"
  scan_header_offset :: "nat option"
  scan_status_l :: "status option"
  itime_l :: "'f option"
  time_l :: "string option"
  scancmd :: "string option"
  date_l :: "string option"
  col_names :: "string list option"
  nofcols :: "nat option"
  mca_col_number :: "int option"
  mca_channels_l :: "int option"
  mca_start :: "int option"
  mca_stop :: "int option"

definition init_locals :: "'f locals" where
  "init_locals =
     \<lparr>scan_started = False, scan_has_mca = False, init_motor_values = [], scannr = None,
      scan_header_offset = None, scan_status_l = None, itime_l = None, time_l = None,
      scancmd = None, date_l = None, col_names = None, nofcols = None,
      mca_col_number = None, mca_channels_l = None, mca_start = None, mca_stop = None\<rparr>"

text \<open>
  The scan object built from the pending header: every local it reads must be bound.
\<close>

definition pending_scan ::
  "'f specfile \<Rightarrow> 'f locals \<Rightarrow> nat option \<Rightarrow> status \<Rightarrow> error + 'f scan" where
  "pending_scan S L doff st =
     ebind (need (scannr L)) (\<lambda>n.
     ebind (need (scancmd L)) (\<lambda>cmd.
     ebind (need (date_l L)) (\<lambda>d.
     ebind (need (time_l L)) (\<lambda>t.
     ebind (need (itime_l L)) (\<lambda>it.
     ebind (need (col_names L)) (\<lambda>cols.
     ebind (need (scan_header_offset L)) (\<lambda>hoff.
       Inr (PalSpecScan (''scan_'' @ str_int n) n cmd d t it cols hoff doff (full_filename S)
              (init_motor_names S) (init_motor_values L) st))))))))"

definition reset_flags :: "'f locals \<Rightarrow> 'f locals" where
  "reset_flags L = L\<lparr>scan_started := False, scan_has_mca := False, init_motor_values := []\<rparr>"

definition append_scan :: "'f scan \<Rightarrow> 'f specfile \<Rightarrow> 'f specfile" where
  "append_scan s S = S\<lparr>scan_list := scan_list S @ [s]\<rparr>"

text \<open>The branches of the loop body, in the order of the source.\<close>

definition motor_names_fh :: "string \<Rightarrow> 'f specfile \<Rightarrow> 'f specfile" where
  "motor_names_fh line S =
     S\<lparr>init_motor_names_fh := init_motor_names_fh S
          @ re_split SPEC_multi_blank2 (strip (re_sub SPEC_initmoponames '''' line))\<rparr>"

definition found_scan ::
  "'f world \<Rightarrow> nat \<Rightarrow> string \<Rightarrow> 'f specfile \<Rightarrow> 'f locals \<Rightarrow> error + ('f specfile \<times> 'f locals)" where
  "found_scan W off line S L =
     ebind (item (re_split SPEC_multi_blank line) 1) (\<lambda>tok.
     ebind (to_int tok) (\<lambda>n.
       Inr (S\<lparr>init_motor_names_sh := [], init_motor_names := init_motor_names_fh S\<rparr>,
            L\<lparr>scannr := Some n, scan_started := True, scan_has_mca := False,
              scan_header_offset := Some off, scan_status_l := Some OK,
              itime_l := Some (nan W), time_l := Some ''''\<rparr>)))"

definition found_datetime :: "string \<Rightarrow> 'f locals \<Rightarrow> error + 'f locals" where
  "found_datetime line L =
     ebind (item (findall SPEC_time_format line) 0) (\<lambda>t.
       Inr (L\<lparr>time_l := Some t,
              date_l := Some (strip (re_sub SPEC_multi_blank '' ''
                (re_sub SPEC_datetime '''' (re_sub SPEC_time_format '''' line))))\<rparr>))"

definition found_exptime :: "'f world \<Rightarrow> string \<Rightarrow> 'f locals \<Rightarrow> error + 'f locals" where
  "found_exptime W line L =
     ebind (item (findall SPEC_num_value line) 0) (\<lambda>tok.
     ebind (to_float W tok) (\<lambda>x. Inr (L\<lparr>itime_l := Some x\<rparr>)))"

definition motor_names_sh :: "string \<Rightarrow> 'f specfile \<Rightarrow> 'f specfile" where
  "motor_names_sh line S =
     (let sh = init_motor_names_sh S
          @ re_split SPEC_multi_blank2 (strip (re_sub SPEC_initmoponames '''' line))
      in S\<lparr>init_motor_names_sh := sh, init_motor_names := sh\<rparr>)"

text \<open>
  The motor positions: \<open>try: for value in line_list: init_motor_values.append(float(value))
  except ValueError: pass\<close>. The first token that \<open>float\<close> rejects ends the loop.
\<close>

fun append_floats :: "(string \<Rightarrow> 'f option) \<Rightarrow> string list \<Rightarrow> 'f list \<Rightarrow> 'f list" where
  "append_floats f [] vals = vals"
| "append_floats f (v # vs) vals =
     (case f v of None \<Rightarrow> vals | Some x \<Rightarrow> append_floats f vs (vals @ [x]))"

definition motor_positions :: "'f world \<Rightarrow> string \<Rightarrow> 'f locals \<Rightarrow> 'f locals" where
  "motor_positions W line L =
     (let line_list = re_split SPEC_multi_blank (strip (re_sub SPEC_initmopopos '''' line))
      in L\<lparr>init_motor_values := append_floats (py_float W) line_list (init_motor_values L)\<rparr>)"

definition found_colnames :: "string \<Rightarrow> 'f locals \<Rightarrow> 'f locals" where
  "found_colnames line L =
     (let line' = strip (re_sub SPEC_colnames '''' line);
          names = re_split SPEC_multi_blank line';
          n = length names
      in L\<lparr>col_names := Some (if length names > n then re_split SPEC_multi_blank2 line' else names),
           nofcols := Some n\<rparr>)"

definition found_mca_format :: "string \<Rightarrow> 'f locals \<Rightarrow> error + 'f locals" where
  "found_mca_format line L =
     ebind (item (findall SPEC_num_value line) 0) (\<lambda>tok.
     ebind (to_int tok) (\<lambda>n. Inr (L\<lparr>mca_col_number := Some n, scan_has_mca := True\<rparr>)))"

definition found_mca_channels :: "string \<Rightarrow> 'f locals \<Rightarrow> error + 'f locals" where
  "found_mca_channels line L =
     (let line_list = findall SPEC_num_value line in
      ebind (item line_list 0) (\<lambda>t0. ebind (to_int t0) (\<lambda>chans.
      ebind (item line_list 1) (\<lambda>t1. ebind (to_int t1) (\<lambda>start.
      ebind (item line_list 2) (\<lambda>t2. ebind (to_int t2) (\<lambda>stop.
        Inr (L\<lparr>mca_channels_l := Some chans, mca_start := Some start,
               mca_stop := Some stop\<rparr>))))))))"

definition scan_broken ::
  "nat \<Rightarrow> 'f specfile \<Rightarrow> 'f locals \<Rightarrow> error + ('f specfile \<times> 'f locals)" where
  "scan_broken off S L =
     ebind (pending_scan S L (Some off) NODATA) (\<lambda>s. Inr (append_scan s S, reset_flags L))"

definition data_begins ::
  "nat \<Rightarrow> 'f specfile \<Rightarrow> 'f locals \<Rightarrow> error + ('f specfile \<times> 'f locals)" where
  "data_begins off S L =
     ebind (need (scan_status_l L)) (\<lambda>st.
     ebind (pending_scan S L (Some off) st) (\<lambda>s.
     ebind (if scan_has_mca L then
              ebind (need (mca_col_number L)) (\<lambda>fmt.
              ebind (need (mca_channels_l L)) (\<lambda>chans.
              ebind (need (mca_start L)) (\<lambda>start.
              ebind (need (mca_stop L)) (\<lambda>stop. SetMCAParams s fmt chans start stop))))
            else Inr s) (\<lambda>s'.
       Inr (append_scan s' S, reset_flags L))))"

definition scan_follows_scan ::
  "nat \<Rightarrow> string \<Rightarrow> 'f specfile \<Rightarrow> 'f locals \<Rightarrow> error + ('f specfile \<times> 'f locals)" where
  "scan_follows_scan off line S L =
     ebind (pending_scan S L None NODATA) (\<lambda>s.
     ebind (item (re_split SPEC_multi_blank line) 1) (\<lambda>tok.
     ebind (to_int tok) (\<lambda>n.
       Inr ((append_scan s S)\<lparr>init_motor_names_sh := [],
               init_motor_names := init_motor_names_fh S\<rparr>,
            (reset_flags L)\<lparr>scannr := Some n, scan_started := True, scan_has_mca := False,
               scan_header_offset := Some off, scan_status_l := Some OK\<rparr>))))"

text \<open>
  The body of \<open>for line in self.fid\<close>: the \<open>if\<close>/\<open>elif\<close> chain on the decoded and
  stripped line. \<open>off\<close> is the running value of \<open>self.last_offset\<close>, an integer
  throughout the loop since \<open>seek\<close> accepted it.
\<close>

definition parse_branch ::
  "'f world \<Rightarrow> nat \<Rightarrow> string \<Rightarrow> 'f specfile \<Rightarrow> 'f locals \<Rightarrow> error + ('f specfile \<times> 'f locals)" where
  "parse_branch W off line S L =
     (if matches SPEC_newheader line then Inr (S\<lparr>init_motor_names_fh := []\<rparr>, L)
      else if matches SPEC_initmoponames line \<and> \<not> scan_started L then
        Inr (motor_names_fh line S, L)
      else if matches SPEC_scan line \<and> \<not> scan_started L then found_scan W off line S L
      else if matches SPEC_cmd line \<and> scan_started L then
        Inr (S, L\<lparr>scancmd := Some (strip (re_sub SPEC_cmd '''' line))\<rparr>)
      else if matches SPEC_datetime line \<and> scan_started L then
        ebind (found_datetime line L) (\<lambda>L'. Inr (S, L'))
      else if matches SPEC_exptime line \<and> scan_started L then
        ebind (found_exptime W line L) (\<lambda>L'. Inr (S, L'))
      else if matches SPEC_initmoponames line \<and> scan_started L then
        Inr (motor_names_sh line S, L)
      else if matches SPEC_initmopopos line \<and> scan_started L then
        Inr (S, motor_positions W line L)
      else if matches SPEC_colnames line \<and> scan_started L then
        Inr (S, found_colnames line L)
      else if matches SPEC_MCAFormat line \<and> scan_started L then
        ebind (found_mca_format line L) (\<lambda>L'. Inr (S, L'))
      else if matches SPEC_MCAChannels line \<and> scan_started L then
        ebind (found_mca_channels line L) (\<lambda>L'. Inr (S, L'))
      else if findall SPEC_scanbroken line \<noteq> [] \<and> scan_started L then scan_broken off S L
      else if matches SPEC_dataline line \<and> scan_started L then data_begins off S L
      else if matches SPEC_scan line \<and> scan_started L then scan_follows_scan off line S L
      else Inr (S, L))"

text \<open>
  One iteration: the branch taken, then \<open>self.last_offset += linelength\<close> with the
  length of the line as read, before decoding and stripping.
\<close>

definition parse_line ::
  "'f world \<Rightarrow> bytes \<Rightarrow> nat \<times> 'f specfile \<times> 'f locals \<Rightarrow>
   error + (nat \<times> 'f specfile \<times> 'f locals)" where
  "parse_line W raw st =
     (case st of (off, S, L) \<Rightarrow>
        ebind (parse_branch W off (strip (decode_ascii raw)) S L)
          (\<lambda>(S', L'). Inr (off + length raw, S', L')))"

fun parse_lines ::
  "'f world \<Rightarrow> bytes list \<Rightarrow> nat \<times> 'f specfile \<times> 'f locals \<Rightarrow>
   error + (nat \<times> 'f specfile \<times> 'f locals)" where
  "parse_lines W [] st = Inr st"
| "parse_lines W (raw # rest) st =
     (case parse_line W raw st of Inl e \<Rightarrow> Inl e | Inr st' \<Rightarrow> parse_lines W rest st')"

text \<open>
  \<open>Parse\<close>: open the file (IOError when it is missing), seek to \<open>last_offset\<close>
  (TypeError when that is \<open>None\<close>), run the loop, and store
  \<open>self.scan_list[-1].doffset\<close> as the new \<open>last_offset\<close> (IndexError on an empty list).
  An exception ends the call: the model returns the error alone.
\<close>

definition Parse :: "'f world \<Rightarrow> 'f specfile \<Rightarrow> error + 'f specfile" where
  "Parse W S =
     (case files W (full_filename S) of
        None \<Rightarrow> Inl IOError
      | Some content \<Rightarrow>
          (case last_offset S of
             None \<Rightarrow> Inl TypeError
           | Some off \<Rightarrow>
               (case parse_lines W (lines_from off content) (off, S, init_locals) of
                  Inl e \<Rightarrow> Inl e
                | Inr (off', S', L') \<Rightarrow>
                    (if scan_list S' = [] then Inl IndexError
                     else Inr (S'\<lparr>last_offset := doffset (last (scan_list S'))\<rparr>)))))"

section \<open>Folder discovery, the constructor and Update\<close>

text \<open>
  \<open>parse_folders\<close> with a non-empty \<open>scan_in_list\<close>: the \<open>for\<close> loop over the listed scan
  numbers. A number below the cursor is skipped; a missing file ends the loop
  (\<open>break\<close>); after each parsed file \<open>last_offset\<close> is set back to 0.
\<close>

fun parse_listed :: "'f world \<Rightarrow> int list \<Rightarrow> 'f specfile \<Rightarrow> error + 'f specfile" where
  "parse_listed W [] S = Inr S"
| "parse_listed W (scan_nb # rest) S =
     (if scan_nb \<ge> curr_scan_nb S then
        (let S1 = S\<lparr>curr_scan_nb := scan_nb\<rparr>
         in if files W (data_file W scan_nb) \<noteq> None then
              (case Parse W (S1\<lparr>full_filename := data_file W scan_nb\<rparr>) of
                 Inl e \<Rightarrow> Inl e
               | Inr S2 \<Rightarrow> parse_listed W rest (S2\<lparr>last_offset := Some 0\<rparr>))
            else Inr S1)
      else parse_listed W rest S)"

text \<open>
  With an empty \<open>scan_in_list\<close>: \<open>while True\<close> from the cursor on, one file per scan
  number, until a file is missing. The loop runs forever when no file is missing, so
  the result is an option: \<open>None\<close> when the loop never ends.
\<close>

partial_function (option) parse_sequential ::
  "'f world \<Rightarrow> 'f specfile \<Rightarrow> (error + 'f specfile) option" where
  "parse_sequential W S =
     (if files W (data_file W (curr_scan_nb S)) \<noteq> None then
        (case Parse W (S\<lparr>full_filename := data_file W (curr_scan_nb S)\<rparr>) of
           Inl e \<Rightarrow> Some (Inl e)
         | Inr S2 \<Rightarrow>
             parse_sequential W (S2\<lparr>last_offset := Some 0, curr_scan_nb := curr_scan_nb S2 + 1\<rparr>))
      else Some (Inr S))"

definition parse_folders :: "'f world \<Rightarrow> 'f specfile \<Rightarrow> (error + 'f specfile) option" where
  "parse_folders W S =
     (if scan_in_list S \<noteq> [] then Some (parse_listed W (scan_in_list S) S)
      else parse_sequential W S)"

text \<open>\<open>PalSpecFile.__init__\<close>: the initial attributes, then \<open>parse_folders\<close>.\<close>

definition new_specfile :: "int list \<Rightarrow> int \<Rightarrow> 'f specfile" where
  "new_specfile scan_in_list' start_scan =
     \<lparr>full_filename = '''', scan_list = [], last_offset = Some 0,
      scan_in_list = scan_in_list',
      curr_scan_nb = (case scan_in_list' of [] \<Rightarrow> start_scan | n # _ \<Rightarrow> n),
      init_motor_names_fh = [], init_motor_names_sh = [], init_motor_names = []\<rparr>"

definition PalSpecFile :: "'f world \<Rightarrow> int list \<Rightarrow> int \<Rightarrow> (error + 'f specfile) option" where
  "PalSpecFile W scan_in_list' start_scan = parse_folders W (new_specfile scan_in_list' start_scan)"

text \<open>\<open>Update\<close>: set \<open>ischanged\<close> on the last scan of the list, then \<open>parse_folders\<close>.\<close>

definition mark_last :: "'f scan list \<Rightarrow> 'f scan list" where
  "mark_last xs = (if xs = [] then [] else butlast xs @ [(last xs)\<lparr>ischanged := True\<rparr>])"

definition Update :: "'f world \<Rightarrow> 'f specfile \<Rightarrow> (error + 'f specfile) option" where
  "Update W S = parse_folders W (S\<lparr>scan_list := mark_last (scan_list S)\<rparr>)"

section \<open>PalSpecScan.ReadData\<close>

text \<open>
  The names bound at module level once the module is loaded: its imports, its classes
  and its constants. \<open>import numpy as np\<close> binds \<open>np\<close>; the \<open>import numpy\<close> inside
  \<open>Parse\<close> binds a local of \<open>Parse\<close> only. Reading a global name that neither the module
  nor the builtins bind raises NameError.
\<close>

definition module_globals :: "string list" where
  "module_globals =
     [''os'', ''SPECFile'', ''SPECScan'', ''xu_open'', ''config'', ''re'', ''np'', ''Spec'',
      ''PalSpecScan'', ''PalSpec'', ''SPEC_time_format'', ''SPEC_multi_blank'',
      ''SPEC_multi_blank2'', ''SPEC_int_value'', ''SPEC_num_value'', ''SPEC_dataline'',
      ''SPEC_scan'', ''SPEC_cmd'', ''SPEC_initmoponames'', ''SPEC_initmopopos'',
      ''SPEC_datetime'', ''SPEC_exptime'', ''SPEC_nofcols'', ''SPEC_colnames'',
      ''SPEC_MCAFormat'', ''SPEC_MCAChannels'', ''SPEC_headerline'', ''SPEC_scanbroken'',
      ''SPEC_scanresumed'', ''SPEC_commentline'', ''SPEC_newheader'', ''SPEC_errorbm20'',
      ''scan_status_flags'', ''PalSpecFile'']"

definition builtin_names :: "string list" where
  "builtin_names =
     [''print'', ''len'', ''map'', ''float'', ''int'', ''tuple'', ''list'', ''repr'',
      ''ValueError'', ''super'']"

definition global_name :: "string \<Rightarrow> error + unit" where
  "global_name n =
     (if n \<in> set module_globals \<or> n \<in> set builtin_names then Inr () else Inl NameError)"

text \<open>
  The result of a call on a scan object: it returns, it raises (the object keeps what
  was assigned before), or it never returns.
\<close>

datatype 'a outcome = Returns 'a | Raises error 'a | Diverges

text \<open>
  \<open>while self.fid.tell() < self.doffset: self.header.append(readline().strip())\<close>.
  At the end of the file \<open>readline\<close> returns nothing and the position stays: the loop
  never ends when the file is shorter than \<open>doffset\<close>.
\<close>

definition readline :: "bytes \<Rightarrow> nat \<Rightarrow> bytes" where
  "readline content pos = (case lines_from pos content of [] \<Rightarrow> [] | l # _ \<Rightarrow> l)"

function read_header :: "bytes \<Rightarrow> nat \<Rightarrow> nat \<Rightarrow> string list \<Rightarrow> string list option" where
  "read_header content pos doff hdr =
     (if pos < doff then
        (case readline content pos of
           [] \<Rightarrow> None
         | c # cs \<Rightarrow>
             read_header content (pos + Suc (length cs)) doff
               (hdr @ [strip (decode_ascii (c # cs))]))
      else Some hdr)"
  by pat_completeness auto
termination
  by (relation "measure (\<lambda>(content, pos, doff, hdr). doff - pos)") auto

declare read_header.simps [simp del]

text \<open>
  The loop over the data lines. \<open>line_list\<close> holds the tokens of the last scalar line:
  \<open>map(float, ...)\<close> is lazy, and \<open>float\<close> runs when the row is built.
\<close>

record 'f reader =
  r_status :: status
  mca_counter :: nat
  scan_aborted_flag :: bool
  record_list :: "'f row list"
  line_list :: "string list"
  mca_tmp_list :: "int list"

datatype 'a flow = Continue 'a | Break 'a | Raise error 'a

fun convert_all :: "(string \<Rightarrow> 'a option) \<Rightarrow> string list \<Rightarrow> 'a list option" where
  "convert_all f [] = Some []"
| "convert_all f (t # ts) =
     (case f t of
        None \<Rightarrow> None
      | Some x \<Rightarrow> (case convert_all f ts of None \<Rightarrow> None | Some xs \<Rightarrow> Some (x # xs)))"

definition read_row :: "'f world \<Rightarrow> 'f scan \<Rightarrow> bytes \<Rightarrow> 'f reader \<Rightarrow> 'f reader flow" where
  "read_row W s raw R =
     (let line = strip (decode_ascii raw) in
      if line = [] then Continue R
      else if findall SPEC_scanbroken line \<noteq> [] \<or> scan_aborted_flag R then
        (if \<not> scan_aborted_flag R then
           Continue (R\<lparr>scan_aborted_flag := True, r_status := ABORTED\<rparr>)
         else if matches SPEC_scanresumed line then
           Continue (R\<lparr>r_status := OK, scan_aborted_flag := False\<rparr>)
         else if matches SPEC_commentline line then Continue R
         else if matches SPEC_errorbm20 line then Continue R
         else Break R)
      else if matches SPEC_headerline line \<or> matches SPEC_commentline line then
        (if matches SPEC_scanresumed line then Continue R
         else if matches SPEC_commentline line then Continue R
         else Break R)
      else if mca_counter R = 0 then
        (let R1 = R\<lparr>line_list := findall SPEC_num_value line\<rparr> in
         if has_mca s then Continue (R1\<lparr>mca_counter := 1, mca_tmp_list := []\<rparr>)
         else
           (case convert_all (py_float W) (line_list R1) of
              None \<Rightarrow> Raise ValueError R1
            | Some xs \<Rightarrow> Continue (R1\<lparr>record_list := record_list R1 @ [(xs, None)]\<rparr>)))
      else
        (case convert_all py_int (findall SPEC_int_value line) of
           None \<Rightarrow> Raise ValueError R
         | Some ns \<Rightarrow>
             (let R1 = R\<lparr>mca_tmp_list := mca_tmp_list R @ ns, mca_counter := mca_counter R + 1\<rparr> in
              if int (mca_counter R1) > mca_nof_lines s then
                (case convert_all (py_float W) (line_list R1) of
                   None \<Rightarrow> Raise ValueError R1
                 | Some xs \<Rightarrow>
                     Continue (R1\<lparr>record_list := record_list R1 @ [(xs, Some (mca_tmp_list R1))],
                                 mca_counter := 0\<rparr>))
              else Continue R1)))"

fun read_rows :: "'f world \<Rightarrow> 'f scan \<Rightarrow> bytes list \<Rightarrow> 'f reader \<Rightarrow> error option \<times> 'f reader" where
  "read_rows W s [] R = (None, R)"
| "read_rows W s (raw # rest) R =
     (case read_row W s raw R of
        Continue R' \<Rightarrow> read_rows W s rest R'
      | Break R' \<Rightarrow> (None, R')
      | Raise e R' \<Rightarrow> (Some e, R'))"

definition row_length :: "'f row \<Rightarrow> nat" where
  "row_length r = length (fst r) + (case snd r of None \<Rightarrow> 0 | Some _ \<Rightarrow> 1)"

text \<open>
  The end of \<open>ReadData\<close>: the length of the first row against the number of names of
  the type descriptor, then \<open>numpy.rec.fromrecords\<close>.
\<close>

definition build_table :: "'f world \<Rightarrow> 'f scan \<Rightarrow> 'f reader \<Rightarrow> 'f scan outcome" where
  "build_table W s R =
     (let s1 = s\<lparr>scan_status := r_status R\<rparr>;
          names = (if has_mca s then colnames s @ [''MCA''] else colnames s)
      in case record_list R of
           [] \<Rightarrow> Raises IndexError s1
         | first_row # _ \<Rightarrow>
             (if row_length first_row = length names then
                (case fromrecords W (record_list R) names
                        (if has_mca s then Some (mca_channels s) else None) of
                   Some table \<Rightarrow> Returns (s1\<lparr>data := Some table\<rparr>)
                 | None \<Rightarrow> Returns (s1\<lparr>scan_status := NODATA\<rparr>))
              else Returns (s1\<lparr>scan_status := NODATA\<rparr>)))"

definition ReadData :: "'f world \<Rightarrow> 'f scan \<Rightarrow> 'f scan outcome" where
  "ReadData W s =
     (if scan_status s = NODATA then Returns (s\<lparr>data := None\<rparr>)
      else
        (case files W (fname s) of
           None \<Rightarrow> Raises IOError s
         | Some content \<Rightarrow>
             (case doffset s of
                None \<Rightarrow> Raises TypeError (s\<lparr>header := []\<rparr>)
              | Some doff \<Rightarrow>
                  (case read_header content (hoffset s) doff [] of
                     None \<Rightarrow> Diverges
                   | Some hdr \<Rightarrow>
                       (let s1 = s\<lparr>header := hdr\<rparr> in
                        case global_name ''numpy'' of
                          Inl e \<Rightarrow> Raises e s1
                        | Inr _ \<Rightarrow>
                            (case read_rows W s1 (lines_from doff content)
                                    \<lparr>r_status = scan_status s1, mca_counter = 0,
                                     scan_aborted_flag = False, record_list = [],
                                     line_list = [], mca_tmp_list = []\<rparr> of
                               (Some e, R) \<Rightarrow> Raises e (s1\<lparr>scan_status := r_status R\<rparr>)
                             | (None, R) \<Rightarrow> build_table W s1 R))))))"

declare parse_sequential.simps [code]

section \<open>Notions used in the statements\<close>

text \<open>
  What a parse pass keeps of the object: the scans already in the list stay in place,
  and the cursor, the list of scan numbers and the file name are unchanged.
\<close>

definition keeps :: "'f specfile \<Rightarrow> 'f specfile \<Rightarrow> bool" where
  "keeps S S' =
     (prefix (scan_list S) (scan_list S') \<and> curr_scan_nb S' = curr_scan_nb S \<and>
      scan_in_list S' = scan_in_list S \<and> full_filename S' = full_filename S)"

text \<open>
  A line that one of the branches before the abort branch takes while a scan is
  started: a new file header, a command, a date, an exposure time, motor names, motor
  positions, column names or a spectral declaration.
\<close>

definition header_field :: "string \<Rightarrow> bool" where
  "header_field line =
     (matches SPEC_newheader line \<or> matches SPEC_cmd line \<or> matches SPEC_datetime line \<or>
      matches SPEC_exptime line \<or> matches SPEC_initmoponames line \<or>
      matches SPEC_initmopopos line \<or> matches SPEC_colnames line \<or>
      matches SPEC_MCAFormat line \<or> matches SPEC_MCAChannels line)"

text \<open>
  The sequential discovery as the specification words it: the files of the given scan
  numbers are parsed in the order of the list; after each one the offset is reset and
  the cursor advances by one.
\<close>

fun parse_in_order :: "'f world \<Rightarrow> int list \<Rightarrow> 'f specfile \<Rightarrow> error + 'f specfile" where
  "parse_in_order W [] S = Inr S"
| "parse_in_order W (n # ns) S =
     (case Parse W (S\<lparr>full_filename := data_file W n\<rparr>) of
        Inl e \<Rightarrow> Inl e
      | Inr S' \<Rightarrow>
          parse_in_order W ns (S'\<lparr>last_offset := Some 0, curr_scan_nb := curr_scan_nb S' + 1\<rparr>))"

fun consecutive :: "int \<Rightarrow> int list \<Rightarrow> bool" where
  "consecutive n [] = True"
| "consecutive n (m # ms) = (m = n \<and> consecutive (n + 1) ms)"

section \<open>Example files\<close>

text \<open>
  A reading of \<open>float\<close> for the examples: plain decimal literals with an optional
  fraction and exponent, \<open>inf\<close> and \<open>nan\<close>; the value is kept as the literal itself.
\<close>

definition float_literal :: "atom list list" where
  "float_literal =
     [[(sign, Opt), (Digit, Plus), (Lit CHR ''.'', One), (Digit, Star),
       (either CHR ''e'' CHR ''E'', One), (sign, Opt), (Digit, Plus)],
      [(sign, Opt), (Digit, Plus), (Lit CHR ''.'', One), (Digit, Star)],
      [(sign, Opt), (Digit, Plus), (either CHR ''e'' CHR ''E'', One), (sign, Opt), (Digit, Plus)],
      [(sign, Opt), (Digit, Plus)],
      [(sign, Opt), (Lit CHR ''.'', One), (Digit, Plus),
       (either CHR ''e'' CHR ''E'', One), (sign, Opt), (Digit, Plus)],
      [(sign, Opt), (Lit CHR ''.'', One), (Digit, Plus)],
      [(sign, Opt), (either CHR ''I'' CHR ''i'', One), (either CHR ''N'' CHR ''n'', One),
       (either CHR ''F'' CHR ''f'', One)],
      [(sign, Opt), (either CHR ''N'' CHR ''n'', One), (either CHR ''A'' CHR ''a'', One),
       (either CHR ''N'' CHR ''n'', One)]]"

definition plain_float :: "string \<Rightarrow> string option" where
  "plain_float s =
     (let t = strip s
      in if list_ex (\<lambda>as. match_atoms as t = Some (length t)) float_literal then Some t
         else None)"

text \<open>The default file name template \<open>{0:07d}_meta.log\<close> in the folder \<open>/data\<close>.\<close>

definition example_path :: "int \<Rightarrow> string" where
  "example_path n =
     (let d = nat_digits (nat \<bar>n\<bar>)
      in ''/data/''
         @ (if n < 0 then CHR ''-'' # replicate (6 - length d) CHR ''0'' @ d
            else replicate (7 - length d) CHR ''0'' @ d)
         @ ''_meta.log'')"

definition example_world :: "(string \<times> bytes) list \<Rightarrow> string world" where
  "example_world fs =
     \<lparr>py_float = plain_float, nan = ''nan'', data_file = example_path, files = map_of fs,
      fromrecords = (\<lambda>rows names chans. Some rows)\<rparr>"

definition text_lines :: "string list \<Rightarrow> bytes" where
  "text_lines ls = concat (map (\<lambda>l. l @ [newline]) ls)"

definition header_lines :: "string \<Rightarrow> string list" where
  "header_lines n =
     [''#RUN '' @ n, ''#CMD ascan th 0 2 2 1'', ''#TIM Mon Jan 01 12:00:00 2020'',
      ''#COL th det'']"

definition complete_file :: bytes where
  "complete_file = text_lines (header_lines ''1'' @ [''0 5'', ''1 6'', ''2 7''])"

definition truncated_file :: bytes where
  "truncated_file = text_lines (header_lines ''1'' @ [''0 5''])"

definition aborted_file :: bytes where
  "aborted_file =
     text_lines (header_lines ''1'' @ [''#C Mon Jan 01 12:00:05 2020.  Scan aborted after 0 points.''])"

definition double_abort_file :: bytes where
  "double_abort_file =
     text_lines (header_lines ''1''
       @ [''#C Mon Jan 01 12:00:05 2020.  Scan aborted after 0 points.'',
          ''#C Mon Jan 01 12:00:06 2020.  Scan aborted after 0 points.''])"

definition two_headers_file :: bytes where
  "two_headers_file = text_lines (header_lines ''1'' @ [''#RUN 2''])"

definition header_only_file :: bytes where
  "header_only_file = text_lines (header_lines ''1'')"

definition motor_file :: bytes where
  "motor_file = text_lines (header_lines ''1'' @ [''#VAL 1.0 abc 2.0'', ''0 5''])"

definition short_row_file :: bytes where
  "short_row_file = text_lines (header_lines ''1'' @ [''0'', ''1 6''])"

definition five_files :: "(string \<times> bytes) list" where
  "five_files =
     [(example_path 1, text_lines (header_lines ''1'' @ [''0 5''])),
      (example_path 2, text_lines (header_lines ''2'' @ [''0 5''])),
      (example_path 3, text_lines (header_lines ''3'' @ [''0 5''])),
      (example_path 4, text_lines (header_lines ''4'' @ [''0 5''])),
      (example_path 5, text_lines (header_lines ''5'' @ [''0 5'']))]"

text \<open>A folder that holds the file of scan 1 only, and the object before its first pass.\<close>

definition one_file_world :: "bytes \<Rightarrow> string world" where
  "one_file_world content = example_world [(example_path 1, content)]"

definition opened :: "string specfile" where
  "opened = (new_specfile [] 1)\<lparr>full_filename := example_path 1\<rparr>"

text \<open>The scan that the header lines above describe, as \<open>Parse\<close> builds it.\<close>

definition example_scan :: "int \<Rightarrow> nat option \<Rightarrow> status \<Rightarrow> string scan" where
  "example_scan n doff st =
     PalSpecScan (''scan_'' @ str_int n) n ''ascan th 0 2 2 1'' ''Mon Jan 01 2020'' ''12:00:00''
       ''nan'' [''th'', ''det''] 0 doff (example_path n) [] [] st"

text \<open>The object after the constructor has parsed the file of scan 1 from a list.\<close>

definition listed_once :: "string specfile" where
  "listed_once =
     \<lparr>full_filename = example_path 1, scan_list = [example_scan 1 (Some 71) OK],
      last_offset = Some 0, scan_in_list = [1], curr_scan_nb = 1,
      init_motor_names_fh = [], init_motor_names_sh = [], init_motor_names = []\<rparr>"

text \<open>The locals of \<open>Parse\<close> once the header lines above are read.\<close>

definition pending_locals :: "string locals" where
  "pending_locals =
     init_locals\<lparr>scan_started := True, scannr := Some 1, scan_header_offset := Some 0,
       scan_status_l := Some OK, itime_l := Some ''nan'', time_l := Some ''12:00:00'',
       scancmd := Some ''ascan th 0 2 2 1'', date_l := Some ''Mon Jan 01 2020'',
       col_names := Some [''th'', ''det''], nofcols := Some 2\<rparr>"

definition abort_line :: bytes where
  "abort_line = ''#C Mon Jan 01 12:00:05 2020.  Scan aborted after 0 points.'' @ [newline]"

text \<open>The object after sequential discovery has parsed the five files.\<close>

definition five_parsed :: "string specfile" where
  "five_parsed =
     \<lparr>full_filename = example_path 5,
      scan_list = [example_scan 1 (Some 71) OK, example_scan 2 (Some 71) OK,
        example_scan 3 (Some 71) OK, example_scan 4 (Some 71) OK, example_scan 5 (Some 71) OK],
      last_offset = Some 0, scan_in_list = [], curr_scan_nb = 6,
      init_motor_names_fh = [], init_motor_names_sh = [], init_motor_names = []\<rparr>"

text \<open>
  A file with two scans, truncated after the first data row of the second scan and
  after one more row has been written; and the record of the second scan.
\<close>

definition two_scan_truncated :: bytes where
  "two_scan_truncated =
     text_lines (header_lines ''1'' @ [''0 5''] @ header_lines ''2'' @ [''0 5''])"

definition two_scan_file :: bytes where
  "two_scan_file =
     text_lines (header_lines ''1'' @ [''0 5''] @ header_lines ''2'' @ [''0 5'', ''1 6''])"

definition second_scan :: "string scan" where
  "second_scan = (example_scan 2 (Some 146) OK)\<lparr>hoffset := 75, fname := example_path 1\<rparr>"

text \<open>
  The folder of the five files while the file of scan 1 is still being written: it
  holds the scan header and no data row yet.
\<close>

definition open_first_file :: "(string \<times> bytes) list" where
  "open_first_file = (example_path 1, header_only_file) # tl five_files"

section \<open>Basic facts\<close>

lemma ebind_Inr: "ebind m f = Inr y \<longleftrightarrow> (\<exists>x. m = Inr x \<and> f x = Inr y)"
  by (cases m) (simp_all add: ebind_def)

lemma keeps_refl: "keeps S S"
  by (simp add: keeps_def)

lemma keeps_trans: "keeps S S' \<Longrightarrow> keeps S' S'' \<Longrightarrow> keeps S S''"
  by (auto simp: keeps_def)

subsection \<open>Literal patterns\<close>

lemma match_lit: "match_atoms (lit p) s = (if prefix p s then Some (length p) else None)"
proof (induction p arbitrary: s)
  case Nil
  then show ?case by (simp add: lit_def)
next
  case (Cons c p)
  have step: "match_atoms (lit p) t = (if prefix p t then Some (length p) else None)" for t
    using Cons.IH by simp
  show ?case
  proof (cases s)
    case Nil
    then show ?thesis by (simp add: lit_def)
  next
    case (Cons x xs)
    then show ?thesis using step[of xs] by (simp add: lit_def)
  qed
qed

lemma matches_lit: "matches (Regex a [lit p]) s \<longleftrightarrow> prefix p s"
  by (simp add: matches_def re_match_def match_lit)

subsection \<open>Lines of a file\<close>

lemma readlines_first:
  "acc \<noteq> [] \<or> xs \<noteq> [] \<Longrightarrow> \<exists>l ls. readlines acc xs = l # ls \<and> l \<noteq> []"
  by (induction xs arbitrary: acc) auto

lemma readlines_length: "sum_list (map length (readlines acc xs)) = length acc + length xs"
  by (induction xs arbitrary: acc) auto

lemma lines_from_length:
  "sum_list (map length (lines_from off content)) = length content - off"
  by (simp add: lines_from_def readlines_length)

lemma lines_from_beyond: "length content \<le> off \<Longrightarrow> lines_from off content = []"
  by (simp add: lines_from_def)

lemma readline_nonempty: "pos < length content \<Longrightarrow> readline content pos \<noteq> []"
  using readlines_first[of "[]" "drop pos content"]
  by (auto simp: readline_def lines_from_def)

lemma read_header_returns:
  "doff \<le> length content \<Longrightarrow> read_header content pos doff hdr \<noteq> None"
proof (induction content pos doff hdr rule: read_header.induct)
  case (1 content pos doff hdr)
  show ?case
  proof (cases "pos < doff")
    case False
    then show ?thesis by (simp add: read_header.simps)
  next
    case True
    with 1(2) have "readline content pos \<noteq> []" by (intro readline_nonempty) simp
    then obtain c cs where l: "readline content pos = c # cs" by (cases "readline content pos") auto
    from 1(1)[OF True l 1(2)] True l show ?thesis
      by (subst read_header.simps) simp
  qed
qed

subsection \<open>A parse pass only appends\<close>

lemma found_scan_keeps: "found_scan W off line S L = Inr (S', L') \<Longrightarrow> keeps S S'"
  by (auto simp: found_scan_def ebind_Inr keeps_def)

lemma scan_broken_keeps: "scan_broken off S L = Inr (S', L') \<Longrightarrow> keeps S S'"
  by (auto simp: scan_broken_def ebind_Inr keeps_def append_scan_def)

lemma data_begins_keeps: "data_begins off S L = Inr (S', L') \<Longrightarrow> keeps S S'"
  by (auto simp: data_begins_def ebind_Inr keeps_def append_scan_def)

lemma scan_follows_scan_keeps: "scan_follows_scan off line S L = Inr (S', L') \<Longrightarrow> keeps S S'"
  by (auto simp: scan_follows_scan_def ebind_Inr keeps_def append_scan_def)

lemma parse_branch_keeps: "parse_branch W off line S L = Inr (S', L') \<Longrightarrow> keeps S S'"
  unfolding parse_branch_def
  by (auto simp: ebind_Inr keeps_refl motor_names_fh_def motor_names_sh_def Let_def
        split: if_splits
        dest: found_scan_keeps scan_broken_keeps data_begins_keeps scan_follows_scan_keeps)
     (auto simp: keeps_def)

lemma parse_line_keeps: "parse_line W raw (off, S, L) = Inr (off', S', L') \<Longrightarrow> keeps S S'"
  by (auto simp: parse_line_def ebind_Inr dest: parse_branch_keeps)

lemma parse_line_offset:
  "parse_line W raw (off, S, L) = Inr (off', S', L') \<Longrightarrow> off' = off + length raw"
  by (auto simp: parse_line_def ebind_Inr)

lemma parse_lines_keeps:
  "parse_lines W ls (off, S, L) = Inr (off', S', L') \<Longrightarrow> keeps S S'"
proof (induction ls arbitrary: off S L)
  case Nil
  then show ?case by (simp add: keeps_refl)
next
  case (Cons raw ls)
  then obtain off1 S1 L1 where
    step: "parse_line W raw (off, S, L) = Inr (off1, S1, L1)" and
    rest: "parse_lines W ls (off1, S1, L1) = Inr (off', S', L')"
    by (auto split: sum.splits)
  from parse_line_keeps[OF step] Cons.IH[OF rest] show ?case
    by (rule keeps_trans)
qed

lemma Parse_keeps:
  assumes "Parse W S = Inr S'"
  shows "keeps S S'"
  using assms parse_lines_keeps
  by (fastforce simp: Parse_def keeps_def split: option.splits sum.splits if_splits)

subsection \<open>Where the appended scans point\<close>

lemma pending_scan_fields:
  "pending_scan S L doff st = Inr s \<Longrightarrow>
   fname s = full_filename S \<and> doffset s = doff \<and> scan_status s = st"
  by (auto simp: pending_scan_def ebind_Inr PalSpecScan_def)

lemma SetMCAParams_fields:
  "SetMCAParams s a b c d = Inr s' \<Longrightarrow>
   fname s' = fname s \<and> doffset s' = doffset s \<and> scan_status s' = scan_status s"
  by (auto simp: SetMCAParams_def split: if_splits)

lemma scan_broken_new:
  "scan_broken off S L = Inr (S', L') \<Longrightarrow>
   \<exists>s. scan_list S' = scan_list S @ [s] \<and> fname s = full_filename S \<and> scan_status s = NODATA"
  by (auto simp: scan_broken_def ebind_Inr append_scan_def dest: pending_scan_fields)

lemma scan_follows_scan_new:
  "scan_follows_scan off line S L = Inr (S', L') \<Longrightarrow>
   \<exists>s. scan_list S' = scan_list S @ [s] \<and> fname s = full_filename S \<and> scan_status s = NODATA"
  by (auto simp: scan_follows_scan_def ebind_Inr append_scan_def dest: pending_scan_fields)

lemma data_begins_new:
  "data_begins off S L = Inr (S', L') \<Longrightarrow>
   \<exists>s. scan_list S' = scan_list S @ [s] \<and> fname s = full_filename S \<and> doffset s = Some off"
  by (auto simp: data_begins_def ebind_Inr append_scan_def
        dest!: pending_scan_fields SetMCAParams_fields split: if_splits)

lemma found_scan_same: "found_scan W off line S L = Inr (S', L') \<Longrightarrow> scan_list S' = scan_list S"
  by (auto simp: found_scan_def ebind_Inr)

lemma parse_branch_new:
  assumes "parse_branch W off line S L = Inr (S', L')"
  shows "scan_list S' = scan_list S \<or>
         (\<exists>s. scan_list S' = scan_list S @ [s] \<and> fname s = full_filename S \<and>
              (scan_status s = NODATA \<or> doffset s = Some off))"
  using assms unfolding parse_branch_def
  by (auto simp: ebind_Inr motor_names_fh_def motor_names_sh_def Let_def
        split: if_splits
        dest: found_scan_same scan_broken_new data_begins_new scan_follows_scan_new)

lemma parse_lines_new:
  "parse_lines W ls (off, S, L) = Inr (off', S', L') \<Longrightarrow>
   off' = off + sum_list (map length ls) \<and>
   (\<exists>new. scan_list S' = scan_list S @ new \<and>
      (\<forall>s \<in> set new. fname s = full_filename S \<and>
         (scan_status s = NODATA \<or> (\<exists>d. doffset s = Some d \<and> d \<le> off'))))"
proof (induction ls arbitrary: off S L)
  case Nil
  then show ?case by simp
next
  case (Cons raw ls)
  then obtain off1 S1 L1 where
    step: "parse_line W raw (off, S, L) = Inr (off1, S1, L1)" and
    rest: "parse_lines W ls (off1, S1, L1) = Inr (off', S', L')"
    by (auto split: sum.splits)
  from step have off1: "off1 = off + length raw" by (rule parse_line_offset)
  from step have "parse_branch W off (strip (decode_ascii raw)) S L = Inr (S1, L1)"
    by (auto simp: parse_line_def ebind_Inr)
  from parse_branch_new[OF this] obtain new1 where
    n1: "scan_list S1 = scan_list S @ new1" and
    p1: "\<forall>s \<in> set new1. fname s = full_filename S \<and>
           (scan_status s = NODATA \<or> doffset s = Some off)"
    by (cases "scan_list S1 = scan_list S") auto
  from parse_line_keeps[OF step] have fn: "full_filename S1 = full_filename S"
    by (simp add: keeps_def)
  from Cons.IH[OF rest] obtain new2 where
    o: "off' = off1 + sum_list (map length ls)" and
    n2: "scan_list S' = scan_list S1 @ new2" and
    p2: "\<forall>s \<in> set new2. fname s = full_filename S1 \<and>
           (scan_status s = NODATA \<or> (\<exists>d. doffset s = Some d \<and> d \<le> off'))"
    by auto
  have "off \<le> off'" using o off1 by simp
  with p1 have p1': "\<forall>s \<in> set new1. fname s = full_filename S \<and>
           (scan_status s = NODATA \<or> (\<exists>d. doffset s = Some d \<and> d \<le> off'))"
    by auto
  have "scan_list S' = scan_list S @ (new1 @ new2)" using n1 n2 by simp
  moreover have "\<forall>s \<in> set (new1 @ new2). fname s = full_filename S \<and>
           (scan_status s = NODATA \<or> (\<exists>d. doffset s = Some d \<and> d \<le> off'))"
    using p1' p2 fn by auto
  moreover have "off' = off + sum_list (map length (raw # ls))" using o off1 by simp
  ultimately show ?case by blast
qed

lemma Parse_new_scans:
  assumes p: "Parse W S = Inr S'"
    and s: "s \<in> set (drop (length (scan_list S)) (scan_list S'))"
    and st: "scan_status s \<noteq> NODATA"
  shows "\<exists>content d. files W (fname s) = Some content \<and> doffset s = Some d \<and> d \<le> length content"
proof -
  from p obtain content off off' S1 L1 where
    f: "files W (full_filename S) = Some content" and
    lo: "last_offset S = Some off" and
    pl: "parse_lines W (lines_from off content) (off, S, init_locals) = Inr (off', S1, L1)" and
    S': "scan_list S' = scan_list S1"
    by (auto simp: Parse_def split: option.splits sum.splits if_splits)
  from parse_lines_new[OF pl] obtain new where
    o: "off' = off + sum_list (map length (lines_from off content))" and
    n: "scan_list S1 = scan_list S @ new" and
    pn: "\<forall>s \<in> set new. fname s = full_filename S \<and>
           (scan_status s = NODATA \<or> (\<exists>d. doffset s = Some d \<and> d \<le> off'))"
    by auto
  from s S' n have mem: "s \<in> set new" by simp
  with pn st obtain d where fs: "fname s = full_filename S" and d: "doffset s = Some d" "d \<le> off'"
    by auto
  have "off \<le> length content"
  proof (rule ccontr)
    assume "\<not> off \<le> length content"
    then have "lines_from off content = []" by (intro lines_from_beyond) simp
    with pl n mem show False by simp
  qed
  with o have "off' = length content" by (simp add: lines_from_length)
  with f fs d show ?thesis by auto
qed

subsection \<open>Discovery only appends\<close>

lemma parse_listed_keeps:
  "parse_listed W ns S = Inr S' \<Longrightarrow> prefix (scan_list S) (scan_list S')"
proof (induction ns arbitrary: S)
  case Nil
  then show ?case by simp
next
  case (Cons n ns)
  show ?case
  proof (cases "n \<ge> curr_scan_nb S")
    case False
    with Cons show ?thesis by simp
  next
    case True
    show ?thesis
    proof (cases "files W (data_file W n) = None")
      case True
      with \<open>n \<ge> curr_scan_nb S\<close> Cons.prems show ?thesis by (auto simp: Let_def)
    next
      case False
      with \<open>n \<ge> curr_scan_nb S\<close> Cons.prems obtain S2 where
        p: "Parse W (S\<lparr>curr_scan_nb := n, full_filename := data_file W n\<rparr>) = Inr S2" and
        r: "parse_listed W ns (S2\<lparr>last_offset := Some 0\<rparr>) = Inr S'"
        by (auto simp: Let_def split: sum.splits)
      from Parse_keeps[OF p] have "prefix (scan_list S) (scan_list S2)"
        by (simp add: keeps_def)
      moreover from Cons.IH[OF r] have "prefix (scan_list S2) (scan_list S')" by simp
      ultimately show ?thesis by (rule prefix_order.trans)
    qed
  qed
qed

lemma parse_sequential_keeps:
  assumes "parse_sequential W S = Some r"
  shows "\<forall>S'. r = Inr S' \<longrightarrow> prefix (scan_list S) (scan_list S')"
proof (rule parse_sequential.raw_induct
    [where P = "\<lambda>W S r. \<forall>S'. r = Inr S' \<longrightarrow> prefix (scan_list S) (scan_list S')"],
    goal_cases)
  case (1 loop W S r)
  show ?case
  proof (cases "files W (data_file W (curr_scan_nb S)) = None")
    case True
    with 1(2) show ?thesis by auto
  next
    case False
    show ?thesis
    proof (cases "Parse W (S\<lparr>full_filename := data_file W (curr_scan_nb S)\<rparr>)")
      case (Inl e)
      with False 1(2) show ?thesis by auto
    next
      case (Inr S2)
      with False 1(2) have
        "loop W (S2\<lparr>last_offset := Some 0, curr_scan_nb := curr_scan_nb S2 + 1\<rparr>) = Some r"
        by simp
      from 1(1)[OF this] have "\<forall>S'. r = Inr S' \<longrightarrow> prefix (scan_list S2) (scan_list S')"
        by simp
      moreover from Parse_keeps[OF Inr] have "prefix (scan_list S) (scan_list S2)"
        by (simp add: keeps_def)
      ultimately show ?thesis by (auto intro: prefix_order.trans)
    qed
  qed
qed (rule assms)

lemma parse_sequential_run:
  assumes "consecutive (curr_scan_nb S) ns"
    and "\<forall>k \<in> set ns. files W (data_file W k) \<noteq> None"
    and "files W (data_file W (curr_scan_nb S + int (length ns))) = None"
  shows "parse_sequential W S = Some (parse_in_order W ns S)"
  using assms
proof (induction ns arbitrary: S)
  case Nil
  then show ?case by (subst parse_sequential.simps) simp
next
  case (Cons n ns)
  from Cons.prems have n: "n = curr_scan_nb S" and ex: "files W (data_file W n) \<noteq> None"
    by simp_all
  show ?case
  proof (cases "Parse W (S\<lparr>full_filename := data_file W n\<rparr>)")
    case (Inl e)
    then show ?thesis using n ex by (subst parse_sequential.simps) simp
  next
    case (Inr S2)
    from Parse_keeps[OF Inr] have c: "curr_scan_nb S2 = n"
      by (simp add: keeps_def n)
    let ?S3 = "S2\<lparr>last_offset := Some 0, curr_scan_nb := curr_scan_nb S2 + 1\<rparr>"
    have "parse_sequential W ?S3 = Some (parse_in_order W ns ?S3)"
      using Cons.prems c n by (intro Cons.IH) (simp_all add: add.assoc)
    then show ?thesis using Inr n ex by (subst parse_sequential.simps) simp
  qed
qed

lemma parse_in_order_cursor:
  "parse_in_order W ns S = Inr S' \<Longrightarrow> curr_scan_nb S' = curr_scan_nb S + int (length ns)"
proof (induction ns arbitrary: S)
  case Nil
  then show ?case by simp
next
  case (Cons n ns)
  then obtain S2 where p: "Parse W (S\<lparr>full_filename := data_file W n\<rparr>) = Inr S2"
    and r: "parse_in_order W ns (S2\<lparr>last_offset := Some 0, curr_scan_nb := curr_scan_nb S2 + 1\<rparr>) = Inr S'"
    by (auto split: sum.splits)
  from Parse_keeps[OF p] have "curr_scan_nb S2 = curr_scan_nb S" by (simp add: keeps_def)
  with Cons.IH[OF r] show ?case by simp
qed

subsection \<open>The abort branch and the motor positions\<close>

lemma abort_branch:
  assumes "scan_started L"
    and "findall SPEC_scanbroken line \<noteq> []"
    and "\<not> header_field line"
    and "scannr L = Some n" and "scancmd L = Some cmd" and "date_l L = Some d"
    and "time_l L = Some t" and "itime_l L = Some it" and "col_names L = Some cols"
    and "scan_header_offset L = Some hoff"
  shows "parse_branch W off line S L =
         Inr (append_scan (PalSpecScan (''scan_'' @ str_int n) n cmd d t it cols hoff (Some off)
                (full_filename S) (init_motor_names S) (init_motor_values L) NODATA) S,
              reset_flags L)"
  using assms
  by (simp add: parse_branch_def header_field_def scan_broken_def pending_scan_def ebind_def
        need_def)

lemma idle_branch:
  assumes "\<not> scan_started L"
    and "\<not> matches SPEC_newheader line" and "\<not> matches SPEC_initmoponames line"
    and "\<not> matches SPEC_scan line"
  shows "parse_branch W off line S L = Inr (S, L)"
  using assms by (simp add: parse_branch_def)

lemma append_floats_takeWhile:
  "append_floats f ts vals = vals @ map (the \<circ> f) (takeWhile (\<lambda>tok. f tok \<noteq> None) ts)"
  by (induction ts arbitrary: vals) (auto split: option.splits)

lemma motor_positions_branch:
  assumes "scan_started L" and "matches SPEC_initmopopos line"
  shows "parse_branch W off line S L = Inr (S, motor_positions W line L)"
proof -
  from assms(2) have "prefix ''#VAL'' line"
    by (simp add: SPEC_initmopopos_def matches_lit)
  then obtain rest where line: "line = ''#VAL'' @ rest" by (auto elim: prefixE)
  have "\<not> matches SPEC_newheader line" "\<not> matches SPEC_cmd line"
    "\<not> matches SPEC_datetime line" "\<not> matches SPEC_exptime line"
    "\<not> matches SPEC_initmoponames line"
    by (simp_all add: line SPEC_newheader_def SPEC_cmd_def SPEC_datetime_def SPEC_exptime_def
          SPEC_initmoponames_def matches_lit)
  with assms show ?thesis by (simp add: parse_branch_def)
qed

lemma numpy_unbound: "global_name ''numpy'' = Inl NameError"
  by (simp add: global_name_def module_globals_def builtin_names_def)

section \<open>Sequential discovery\<close>

text \<open>
  What the loop does when the files of the scan numbers 1 to 5 exist and the file of
  scan number 6 does not: from the cursor 1 it is the parse of exactly the files
  1, 2, 3, 4, 5 in this order, it ends with the first exception when one of these parse
  passes raises, no further file is probed after the missing one, and a pass that
  returns leaves the cursor at 6.
\<close>

lemma sequential_discovery_in_order:
  assumes "scan_in_list S = []" and "curr_scan_nb S = 1"
    and "\<forall>n \<in> {1, 2, 3, 4, 5}. files W (data_file W n) \<noteq> None"
    and "files W (data_file W 6) = None"
  shows "parse_folders W S = Some (parse_in_order W [1, 2, 3, 4, 5] S) \<and>
         (\<forall>S'. parse_folders W S = Some (Inr S') \<longrightarrow> curr_scan_nb S' = 6)"
proof -
  have run: "parse_sequential W S = Some (parse_in_order W [1, 2, 3, 4, 5] S)"
    using assms by (intro parse_sequential_run) simp_all
  then have eq: "parse_folders W S = Some (parse_in_order W [1, 2, 3, 4, 5] S)"
    using assms(1) by (simp add: parse_folders_def)
  moreover have "curr_scan_nb S' = 6" if "parse_folders W S = Some (Inr S')" for S'
    using that eq parse_in_order_cursor[of W "[1, 2, 3, 4, 5]" S S'] assms(2) by simp
  ultimately show ?thesis by blast
qed

lemma five_files_discovered:
  "PalSpecFile (example_world five_files) [] 1 = Some (Inr five_parsed)"
proof -
  let ?W = "example_world five_files"
  let ?S = "new_specfile [] 1 :: string specfile"
  have h1: "scan_in_list ?S = []" and h2: "curr_scan_nb ?S = 1"
    by (simp_all add: new_specfile_def)
  have f1: "files ?W (data_file ?W 1) \<noteq> None" by code_simp
  have f2: "files ?W (data_file ?W 2) \<noteq> None" by code_simp
  have f3: "files ?W (data_file ?W 3) \<noteq> None" by code_simp
  have f4: "files ?W (data_file ?W 4) \<noteq> None" by code_simp
  have f5: "files ?W (data_file ?W 5) \<noteq> None" by code_simp
  have h3: "\<forall>n \<in> {1, 2, 3, 4, 5}. files ?W (data_file ?W n) \<noteq> None"
    using f1 f2 f3 f4 f5 by simp
  have h4: "files ?W (data_file ?W 6) = None" by code_simp
  have ev: "parse_in_order ?W [1, 2, 3, 4, 5] ?S = Inr five_parsed" by code_simp
  from sequential_discovery_in_order[OF h1 h2 h3 h4] ev
  show ?thesis by (simp add: PalSpecFile_def)
qed

lemma open_first_file_present:
  "files (example_world open_first_file) (data_file (example_world open_first_file) 1) \<noteq> None"
  "files (example_world open_first_file) (data_file (example_world open_first_file) 2) \<noteq> None"
  "files (example_world open_first_file) (data_file (example_world open_first_file) 3) \<noteq> None"
  "files (example_world open_first_file) (data_file (example_world open_first_file) 4) \<noteq> None"
  "files (example_world open_first_file) (data_file (example_world open_first_file) 5) \<noteq> None"
  "files (example_world open_first_file) (data_file (example_world open_first_file) 6) = None"
  by code_simp+

lemma open_first_file_discovery:
  "PalSpecFile (example_world open_first_file) [] 1 = Some (Inl IndexError)"
  by code_simp

text \<open>
  Claim C10 states that, with the files of the scans 1 to 5 present and the file of
  scan 6 missing, sequential discovery from 1 parses exactly the files 1 to 5 in order
  and leaves the cursor at 6. The code does so when every file holds a finished scan
  header, as the folder \<open>five_files\<close> shows. It breaks the claim when a file holds no
  complete scan yet: with the file of scan 1 written up to the end of its header, the
  parse pass over it ends in \<open>self.scan_list[-1]\<close> on an empty list, the IndexError
  leaves the discovery pass, the files 2 to 5 are never parsed and the cursor is not
  advanced.
\<close>

theorem sequential_discovery_fails_on_open_file:
  "files (example_world open_first_file) (data_file (example_world open_first_file) 1) \<noteq> None \<and>
   files (example_world open_first_file) (data_file (example_world open_first_file) 2) \<noteq> None \<and>
   files (example_world open_first_file) (data_file (example_world open_first_file) 3) \<noteq> None \<and>
   files (example_world open_first_file) (data_file (example_world open_first_file) 4) \<noteq> None \<and>
   files (example_world open_first_file) (data_file (example_world open_first_file) 5) \<noteq> None \<and>
   files (example_world open_first_file) (data_file (example_world open_first_file) 6) = None \<and>
   PalSpecFile (example_world open_first_file) [] 1 = Some (Inl IndexError) \<and>
   PalSpecFile (example_world five_files) [] 1 = Some (Inr five_parsed) \<and>
   curr_scan_nb five_parsed = 6"
  using open_first_file_present open_first_file_discovery five_files_discovered
  by (simp add: five_parsed_def)

section \<open>The end of a parse pass\<close>

lemma offset_after_two_headers:
  "Parse (one_file_world two_headers_file) opened =
     Inr (opened\<lparr>scan_list := [example_scan 1 None NODATA], last_offset := None\<rparr>)"
  by code_simp

lemma pass_after_absent_offset:
  "Parse (one_file_world two_headers_file)
     (opened\<lparr>scan_list := [example_scan 1 None NODATA], last_offset := None\<rparr>) = Inl TypeError"
  by code_simp

lemma pass_over_header_only:
  "Parse (one_file_world header_only_file) opened = Inl IndexError"
  by code_simp

lemma constructor_on_header_only:
  "PalSpecFile (one_file_world header_only_file) [] 1 = Some (Inl IndexError)"
  "PalSpecFile (one_file_world header_only_file) [1] 1 = Some (Inl IndexError)"
  by code_simp+

text \<open>
  Claim C6 states that at the end of the stream \<open>last_offset\<close> becomes the data offset
  of the most recently appended record, or its header offset when it has no data
  offset, and that this is well defined for every pass. The one line that makes the
  assignment, \<open>self.last_offset = self.scan_list[-1].doffset\<close>, misses both cases.
  After a pass whose last record has no data offset, \<open>last_offset\<close> is \<open>None\<close> and not
  the header offset 0 of that record, and the next pass raises TypeError when it seeks
  there. After a pass over a file that holds a scan header and nothing more, the
  pending record is discarded, the list is empty, and the line raises IndexError; the
  constructor fails on such a file in both discovery modes.
\<close>

theorem end_of_stream_offset_missed_cases:
  "Parse (one_file_world two_headers_file) opened =
     Inr (opened\<lparr>scan_list := [example_scan 1 None NODATA], last_offset := None\<rparr>) \<and>
   hoffset (example_scan 1 None NODATA) = 0 \<and>
   doffset (example_scan 1 None NODATA) = None \<and>
   Parse (one_file_world two_headers_file)
     (opened\<lparr>scan_list := [example_scan 1 None NODATA], last_offset := None\<rparr>) = Inl TypeError \<and>
   Parse (one_file_world header_only_file) opened = Inl IndexError \<and>
   PalSpecFile (one_file_world header_only_file) [] 1 = Some (Inl IndexError) \<and>
   PalSpecFile (one_file_world header_only_file) [1] 1 = Some (Inl IndexError)"
  using offset_after_two_headers pass_after_absent_offset pass_over_header_only
    constructor_on_header_only
  by (simp add: example_scan_def PalSpecScan_def)

section \<open>Abort markers in a scan header\<close>

text \<open>
  Claim C4, as amended. When an abort marker is read while a scan header is open, the
  line is not taken by an earlier header branch, and the command, the date and the
  column names of the scan were read, the parser finalizes the pending record at the
  abort marker itself: it appends the record with status NODATA and with the offset of
  the abort marker line as data offset, and returns to the idle state.
\<close>

theorem abort_marker_finalizes_record:
  assumes "scan_started L"
    and "findall SPEC_scanbroken (strip (decode_ascii raw)) \<noteq> []"
    and "\<not> header_field (strip (decode_ascii raw))"
    and "scannr L = Some n" and "scancmd L = Some cmd" and "date_l L = Some d"
    and "time_l L = Some t" and "itime_l L = Some it" and "col_names L = Some cols"
    and "scan_header_offset L = Some hoff"
  shows "parse_line W raw (off, S, L) =
         Inr (off + length raw,
              append_scan (PalSpecScan (''scan_'' @ str_int n) n cmd d t it cols hoff (Some off)
                (full_filename S) (init_motor_names S) (init_motor_values L) NODATA) S,
              reset_flags L) \<and>
         \<not> scan_started (reset_flags L)"
  using abort_branch[OF assms, of W off S]
  by (simp add: parse_line_def ebind_def reset_flags_def)

theorem abort_marker_finalizes_record_witness:
  "parse_line (one_file_world aborted_file) abort_line (71, opened, pending_locals) =
     Inr (130, opened\<lparr>scan_list := [example_scan 1 (Some 71) NODATA]\<rparr>,
          reset_flags pending_locals)"
proof -
  have h1: "scan_started pending_locals" by code_simp
  have h2: "findall SPEC_scanbroken (strip (decode_ascii abort_line)) \<noteq> []" by code_simp
  have h3: "\<not> header_field (strip (decode_ascii abort_line))" by code_simp
  have b: "scannr pending_locals = Some 1" "scancmd pending_locals = Some ''ascan th 0 2 2 1''"
    "date_l pending_locals = Some ''Mon Jan 01 2020''" "time_l pending_locals = Some ''12:00:00''"
    "itime_l pending_locals = Some ''nan''" "col_names pending_locals = Some [''th'', ''det'']"
    "scan_header_offset pending_locals = Some 0"
    by (simp_all add: pending_locals_def init_locals_def)
  have l: "71 + length abort_line = 130" by code_simp
  have s: "append_scan (PalSpecScan (''scan_'' @ str_int 1) 1 ''ascan th 0 2 2 1''
      ''Mon Jan 01 2020'' ''12:00:00'' ''nan'' [''th'', ''det''] 0 (Some 71)
      (full_filename opened) (init_motor_names opened) (init_motor_values pending_locals) NODATA)
      opened = opened\<lparr>scan_list := [example_scan 1 (Some 71) NODATA]\<rparr>"
    by code_simp
  from abort_marker_finalizes_record[OF h1 h2 h3 b, of "one_file_world aborted_file" 71 opened]
  show ?thesis by (simp only: l s)
qed

text \<open>
  The claim as stated fails: in a file that ends with the abort marker the record is
  already in the list, with status NODATA and data offset 71, the offset of the marker.
\<close>

theorem abort_marker_counterexample:
  "Parse (one_file_world aborted_file) opened =
     Inr (opened\<lparr>scan_list := [example_scan 1 (Some 71) NODATA], last_offset := Some 71\<rparr>)"
  by code_simp

text \<open>
  Claim C5, as amended. A scan header (with its command, date and column names read)
  followed by two abort markers, neither taken by an earlier header branch and the
  second not a scan start, yields exactly one record for that scan, with status NODATA
  and with the offset of the first abort marker as data offset.
\<close>

theorem double_abort_one_record:
  assumes "scan_started L"
    and "findall SPEC_scanbroken (strip (decode_ascii raw1)) \<noteq> []"
    and "\<not> header_field (strip (decode_ascii raw1))"
    and "scannr L = Some n" and "scancmd L = Some cmd" and "date_l L = Some d"
    and "time_l L = Some t" and "itime_l L = Some it" and "col_names L = Some cols"
    and "scan_header_offset L = Some hoff"
    and "findall SPEC_scanbroken (strip (decode_ascii raw2)) \<noteq> []"
    and "\<not> header_field (strip (decode_ascii raw2))"
    and "\<not> matches SPEC_scan (strip (decode_ascii raw2))"
  shows "parse_lines W [raw1, raw2] (off, S, L) =
         Inr (off + length raw1 + length raw2,
              S\<lparr>scan_list := scan_list S @
                 [PalSpecScan (''scan_'' @ str_int n) n cmd d t it cols hoff (Some off)
                    (full_filename S) (init_motor_names S) (init_motor_values L) NODATA]\<rparr>,
              reset_flags L)"
proof -
  let ?s = "PalSpecScan (''scan_'' @ str_int n) n cmd d t it cols hoff (Some off)
              (full_filename S) (init_motor_names S) (init_motor_values L) NODATA"
  have first: "parse_line W raw1 (off, S, L) =
      Inr (off + length raw1, append_scan ?s S, reset_flags L)"
    using abort_branch[OF assms(1-10), of W off S] by (simp add: parse_line_def ebind_def)
  have idle: "\<not> scan_started (reset_flags L)" by (simp add: reset_flags_def)
  from assms(12) have "\<not> matches SPEC_newheader (strip (decode_ascii raw2))"
    "\<not> matches SPEC_initmoponames (strip (decode_ascii raw2))"
    by (simp_all add: header_field_def)
  from idle_branch[OF idle this assms(13)]
  have second: "parse_line W raw2 (off2, S2, reset_flags L) =
      Inr (off2 + length raw2, S2, reset_flags L)" for off2 S2
    by (simp add: parse_line_def ebind_def)
  have "parse_lines W [raw1, raw2] (off, S, L) =
      Inr (off + length raw1 + length raw2, append_scan ?s S, reset_flags L)"
    by (simp add: first second)
  then show ?thesis by (simp add: append_scan_def)
qed

theorem double_abort_one_record_witness:
  "parse_lines (one_file_world double_abort_file) [abort_line, abort_line]
     (71, opened, pending_locals) =
     Inr (189, opened\<lparr>scan_list := [example_scan 1 (Some 71) NODATA]\<rparr>,
          reset_flags pending_locals)"
proof -
  have h1: "scan_started pending_locals" by code_simp
  have h2: "findall SPEC_scanbroken (strip (decode_ascii abort_line)) \<noteq> []" by code_simp
  have h3: "\<not> header_field (strip (decode_ascii abort_line))" by code_simp
  have h4: "\<not> matches SPEC_scan (strip (decode_ascii abort_line))" by code_simp
  have b: "scannr pending_locals = Some 1" "scancmd pending_locals = Some ''ascan th 0 2 2 1''"
    "date_l pending_locals = Some ''Mon Jan 01 2020''" "time_l pending_locals = Some ''12:00:00''"
    "itime_l pending_locals = Some ''nan''" "col_names pending_locals = Some [''th'', ''det'']"
    "scan_header_offset pending_locals = Some 0"
    by (simp_all add: pending_locals_def init_locals_def)
  have l: "71 + length abort_line + length abort_line = 189" by code_simp
  have s: "opened\<lparr>scan_list := scan_list opened @
      [PalSpecScan (''scan_'' @ str_int 1) 1 ''ascan th 0 2 2 1''
      ''Mon Jan 01 2020'' ''12:00:00'' ''nan'' [''th'', ''det''] 0 (Some 71)
      (full_filename opened) (init_motor_names opened) (init_motor_values pending_locals) NODATA]\<rparr>
      = opened\<lparr>scan_list := [example_scan 1 (Some 71) NODATA]\<rparr>"
    by code_simp
  from double_abort_one_record[OF h1 h2 h3 b h2 h3 h4,
      of "one_file_world double_abort_file" 71 opened]
  show ?thesis by (simp only: l s)
qed

text \<open>
  The claim as stated fails: the one record of the scan has the data offset 71, the
  offset of the first abort marker; it is not absent.
\<close>

theorem double_abort_counterexample:
  "Parse (one_file_world double_abort_file) opened =
     Inr (opened\<lparr>scan_list := [example_scan 1 (Some 71) NODATA], last_offset := Some 71\<rparr>) \<and>
   doffset (example_scan 1 (Some 71) NODATA) = Some 71"
  by code_simp

section \<open>Motor positions\<close>

text \<open>
  Claim C8, as amended. For every motor-position line read while a scan header is open,
  the tokens of the line are converted in order and appended to the motor values up to
  the first token that \<open>float\<close> rejects; that token and every token after it on the line
  are dropped, well-formed or not. The line never raises, and header parsing continues
  with the next line.
\<close>

theorem motor_positions_stop_at_first_malformed:
  assumes "scan_started L" and "matches SPEC_initmopopos (strip (decode_ascii raw))"
  shows "parse_line W raw (off, S, L) =
         Inr (off + length raw, S,
              L\<lparr>init_motor_values := init_motor_values L @
                 map (the \<circ> py_float W)
                   (takeWhile (\<lambda>tok. py_float W tok \<noteq> None)
                      (re_split SPEC_multi_blank
                         (strip (re_sub SPEC_initmopopos '''' (strip (decode_ascii raw))))))\<rparr>)"
  using motor_positions_branch[OF assms, of W off S]
  by (simp add: parse_line_def ebind_def motor_positions_def append_floats_takeWhile)

theorem motor_positions_witness:
  "parse_line (one_file_world motor_file) (''#VAL 1.0 abc 2.0'' @ [newline])
     (71, opened, pending_locals) =
     Inr (88, opened, pending_locals\<lparr>init_motor_values := [''1.0'']\<rparr>)"
proof -
  let ?raw = "''#VAL 1.0 abc 2.0'' @ [newline]"
  have h1: "scan_started pending_locals" by code_simp
  have h2: "matches SPEC_initmopopos (strip (decode_ascii ?raw))" by code_simp
  have l: "71 + length ?raw = 88" by code_simp
  have v: "init_motor_values pending_locals @
      map (the \<circ> py_float (one_file_world motor_file))
        (takeWhile (\<lambda>tok. py_float (one_file_world motor_file) tok \<noteq> None)
           (re_split SPEC_multi_blank
              (strip (re_sub SPEC_initmopopos '''' (strip (decode_ascii ?raw)))))) = [''1.0'']"
    by code_simp
  from motor_positions_stop_at_first_malformed[OF h1 h2, of "one_file_world motor_file" 71 opened]
  show ?thesis by (simp only: l v)
qed

text \<open>
  The claim as stated fails: on the line \<open>#VAL 1.0 abc 2.0\<close> the well-formed token
  \<open>2.0\<close> after the malformed one is discarded; the record holds the value 1.0 alone.
\<close>

theorem motor_positions_counterexample:
  "Parse (one_file_world motor_file) opened =
     Inr (opened\<lparr>scan_list := [(example_scan 1 (Some 88) OK)\<lparr>imopvalues := [''1.0'']\<rparr>],
            last_offset := Some 88\<rparr>) \<and>
   plain_float ''2.0'' = Some ''2.0''"
  by code_simp

section \<open>Update and a second pass over the same file\<close>

lemma listed_first_pass:
  "PalSpecFile (one_file_world complete_file) [1] 1 = Some (Inr listed_once)"
  by code_simp

lemma listed_first_pass_truncated:
  "PalSpecFile (one_file_world truncated_file) [1] 1 = Some (Inr listed_once)"
  by code_simp

lemma listed_second_pass:
  "Update (one_file_world complete_file) listed_once =
     Some (Inr (listed_once\<lparr>scan_list :=
       [example_scan 1 (Some 71) OK, example_scan 1 (Some 71) OK]\<rparr>))"
  by code_simp

lemma sequential_first_pass:
  "PalSpecFile (one_file_world complete_file) [] 1 =
     Some (Inr (listed_once\<lparr>scan_in_list := [], curr_scan_nb := 2\<rparr>))"
  by code_simp

lemma sequential_second_pass:
  "Update (one_file_world complete_file) (listed_once\<lparr>scan_in_list := [], curr_scan_nb := 2\<rparr>) =
     Some (Inr (listed_once\<lparr>scan_in_list := [], curr_scan_nb := 2\<rparr>))"
  by code_simp

lemma direct_second_pass:
  "Parse (one_file_world complete_file) (listed_once\<lparr>scan_in_list := [], curr_scan_nb := 2\<rparr>) =
     Inr (listed_once\<lparr>scan_in_list := [], curr_scan_nb := 2,
       scan_list := [example_scan 1 (Some 71) OK, example_scan 1 (Some 71) OK],
       last_offset := Some 71\<rparr>)"
  by code_simp

text \<open>
  Claim C1 states that a second parse pass over a complete, static file leaves the scan
  list as it was after the first pass. With a list of scan numbers the code breaks it:
  the constructor parses the file of scan 1 and resets \<open>last_offset\<close> to 0; \<open>Update\<close>
  then parses the same unchanged file again from offset 0 and appends the record of
  its scan a second time. Without a list of scan numbers \<open>Update\<close> leaves the scan
  list unchanged, as the claim says, while a direct call of \<open>Parse\<close> on the object
  appends the record again.
\<close>

theorem second_pass_duplicates_listed_scan:
  "PalSpecFile (one_file_world complete_file) [1] 1 = Some (Inr listed_once) \<and>
   scan_list listed_once = [example_scan 1 (Some 71) OK] \<and>
   Update (one_file_world complete_file) listed_once =
     Some (Inr (listed_once\<lparr>scan_list :=
       [example_scan 1 (Some 71) OK, example_scan 1 (Some 71) OK]\<rparr>)) \<and>
   PalSpecFile (one_file_world complete_file) [] 1 =
     Some (Inr (listed_once\<lparr>scan_in_list := [], curr_scan_nb := 2\<rparr>)) \<and>
   Update (one_file_world complete_file) (listed_once\<lparr>scan_in_list := [], curr_scan_nb := 2\<rparr>) =
     Some (Inr (listed_once\<lparr>scan_in_list := [], curr_scan_nb := 2\<rparr>)) \<and>
   Parse (one_file_world complete_file) (listed_once\<lparr>scan_in_list := [], curr_scan_nb := 2\<rparr>) =
     Inr (listed_once\<lparr>scan_in_list := [], curr_scan_nb := 2,
       scan_list := [example_scan 1 (Some 71) OK, example_scan 1 (Some 71) OK],
       last_offset := Some 71\<rparr>)"
  using listed_first_pass listed_second_pass sequential_first_pass sequential_second_pass
    direct_second_pass
  by (simp add: listed_once_def)

lemma sequential_first_pass_truncated:
  "PalSpecFile (one_file_world truncated_file) [] 1 =
     Some (Inr (listed_once\<lparr>scan_in_list := [], curr_scan_nb := 2\<rparr>))"
  by code_simp

lemma two_scans_first_pass:
  "PalSpecFile (one_file_world two_scan_truncated) [1] 1 =
     Some (Inr (listed_once\<lparr>scan_list := [example_scan 1 (Some 71) OK, second_scan]\<rparr>))"
  by code_simp

lemma two_scans_second_pass:
  "Update (one_file_world two_scan_file)
     (listed_once\<lparr>scan_list := [example_scan 1 (Some 71) OK, second_scan]\<rparr>) =
     Some (Inr (listed_once\<lparr>scan_list :=
       [example_scan 1 (Some 71) OK, second_scan, example_scan 1 (Some 71) OK, second_scan]\<rparr>))"
  by code_simp

lemma two_scans_single_pass:
  "PalSpecFile (one_file_world two_scan_file) [1] 1 =
     Some (Inr (listed_once\<lparr>scan_list := [example_scan 1 (Some 71) OK, second_scan]\<rparr>))"
  by code_simp

text \<open>
  Claim C2 states that \<open>Update\<close> starts the parser again at the header offset of the
  last entry, so that a scan whose data was truncated is replaced and not duplicated,
  that every earlier entry is left unchanged, and that parsing a truncated file and
  then the grown file gives the scan list of a single pass over the grown file. With a
  list of scan numbers the code breaks it. The file of scan 1 is parsed while
  truncated after its first data row, two rows are appended, and \<open>Update\<close> runs: the
  file is parsed again from offset 0 and the record of the scan is in the list twice,
  where a single pass over the grown file gives it once. When the file holds two
  scans, the second with header offset 75, \<open>Update\<close> starts at offset 0 all the same
  and appends both records again. Without a list of scan numbers the same run gives
  the scan list of the single pass.
\<close>

theorem Update_duplicates_after_growth:
  "PalSpecFile (one_file_world truncated_file) [1] 1 = Some (Inr listed_once) \<and>
   scan_list listed_once = [example_scan 1 (Some 71) OK] \<and>
   Update (one_file_world complete_file) listed_once =
     Some (Inr (listed_once\<lparr>scan_list :=
       [example_scan 1 (Some 71) OK, example_scan 1 (Some 71) OK]\<rparr>)) \<and>
   PalSpecFile (one_file_world complete_file) [1] 1 = Some (Inr listed_once) \<and>
   PalSpecFile (one_file_world two_scan_truncated) [1] 1 =
     Some (Inr (listed_once\<lparr>scan_list := [example_scan 1 (Some 71) OK, second_scan]\<rparr>)) \<and>
   hoffset second_scan = 75 \<and>
   Update (one_file_world two_scan_file)
     (listed_once\<lparr>scan_list := [example_scan 1 (Some 71) OK, second_scan]\<rparr>) =
     Some (Inr (listed_once\<lparr>scan_list :=
       [example_scan 1 (Some 71) OK, second_scan, example_scan 1 (Some 71) OK, second_scan]\<rparr>)) \<and>
   PalSpecFile (one_file_world two_scan_file) [1] 1 =
     Some (Inr (listed_once\<lparr>scan_list := [example_scan 1 (Some 71) OK, second_scan]\<rparr>)) \<and>
   PalSpecFile (one_file_world truncated_file) [] 1 =
     Some (Inr (listed_once\<lparr>scan_in_list := [], curr_scan_nb := 2\<rparr>)) \<and>
   Update (one_file_world complete_file) (listed_once\<lparr>scan_in_list := [], curr_scan_nb := 2\<rparr>) =
     Some (Inr (listed_once\<lparr>scan_in_list := [], curr_scan_nb := 2\<rparr>)) \<and>
   PalSpecFile (one_file_world complete_file) [] 1 =
     Some (Inr (listed_once\<lparr>scan_in_list := [], curr_scan_nb := 2\<rparr>))"
  using listed_first_pass_truncated listed_second_pass listed_first_pass
    two_scans_first_pass two_scans_second_pass two_scans_single_pass
    sequential_first_pass_truncated sequential_second_pass sequential_first_pass
  by (simp add: listed_once_def second_scan_def)

text \<open>
  What holds of \<open>Update\<close> in both discovery modes: no record is replaced or removed.
  When \<open>Update\<close> returns, the previous scan list, with the change flag of its last
  record set, is a prefix of the new one.
\<close>

lemma Update_only_appends:
  assumes "Update W S = Some (Inr S')"
  shows "prefix (mark_last (scan_list S)) (scan_list S')"
proof (cases "scan_in_list S = []")
  case True
  with assms have "parse_sequential W (S\<lparr>scan_list := mark_last (scan_list S)\<rparr>) = Some (Inr S')"
    by (simp add: Update_def parse_folders_def)
  from parse_sequential_keeps[OF this] show ?thesis by simp
next
  case False
  with assms have
    "parse_listed W (scan_in_list S) (S\<lparr>scan_list := mark_last (scan_list S)\<rparr>) = Inr S'"
    by (simp add: Update_def parse_folders_def)
  from parse_listed_keeps[OF this] show ?thesis by simp
qed

section \<open>ReadData\<close>

lemma ReadData_with_data:
  "scan_status s \<noteq> NODATA \<Longrightarrow>
   ReadData W s =
     (case files W (fname s) of
        None \<Rightarrow> Raises IOError s
      | Some content \<Rightarrow>
          (case doffset s of
             None \<Rightarrow> Raises TypeError (s\<lparr>header := []\<rparr>)
           | Some doff \<Rightarrow>
               (case read_header content (hoffset s) doff [] of
                  None \<Rightarrow> Diverges
                | Some hdr \<Rightarrow> Raises NameError (s\<lparr>header := hdr\<rparr>))))"
  by (simp add: ReadData_def numpy_unbound split: option.splits)

lemma ReadData_in_file:
  assumes "scan_status s \<noteq> NODATA" and "files W (fname s) = Some content"
    and "doffset s = Some doff" and "doff \<le> length content"
  shows "\<exists>hdr. ReadData W s = Raises NameError (s\<lparr>header := hdr\<rparr>)"
proof -
  from read_header_returns[OF assms(4), of "hoffset s" "[]"]
  obtain hdr where "read_header content (hoffset s) doff [] = Some hdr" by auto
  with assms have "ReadData W s = Raises NameError (s\<lparr>header := hdr\<rparr>)"
    by (simp add: ReadData_with_data)
  then show ?thesis by blast
qed

lemma parsed_complete_file:
  "Parse (one_file_world complete_file) opened =
     Inr (opened\<lparr>scan_list := [example_scan 1 (Some 71) OK], last_offset := Some 71\<rparr>)"
  by code_simp

text \<open>
  Claim C3, as amended. For every scan record whose status is not NODATA, \<open>ReadData\<close>
  never returns and never assigns a data table or a status, so no data table is ever
  produced through it. Whenever the file of the record can be opened and holds the data
  offset of the record, \<open>ReadData\<close> raises NameError before any row is read: the
  global name \<open>numpy\<close> is unbound (the module binds \<open>np\<close>), and the type descriptor
  reads it. This is the case for every such record that a parse pass has appended
  from the file, as long as the file is the one that was parsed.
\<close>

theorem ReadData_raises_NameError:
  assumes "scan_status s \<noteq> NODATA"
  shows "(\<forall>s'. ReadData W s \<noteq> Returns s') \<and>
         (\<forall>e s'. ReadData W s = Raises e s' \<longrightarrow>
            data s' = data s \<and> scan_status s' = scan_status s) \<and>
         (\<forall>content doff.
            files W (fname s) = Some content \<and> doffset s = Some doff \<and> doff \<le> length content \<longrightarrow>
            (\<exists>hdr. ReadData W s = Raises NameError (s\<lparr>header := hdr\<rparr>))) \<and>
         (\<forall>S S'.
            Parse W S = Inr S' \<and> s \<in> set (drop (length (scan_list S)) (scan_list S')) \<longrightarrow>
            (\<exists>hdr. ReadData W s = Raises NameError (s\<lparr>header := hdr\<rparr>)))"
proof (intro conjI allI impI)
  fix s'
  show "ReadData W s \<noteq> Returns s'"
    using assms by (simp add: ReadData_with_data split: option.splits)
next
  fix e s'
  assume "ReadData W s = Raises e s'"
  then show "data s' = data s" and "scan_status s' = scan_status s"
    using assms by (auto simp: ReadData_with_data split: option.splits)
next
  fix content doff
  assume "files W (fname s) = Some content \<and> doffset s = Some doff \<and> doff \<le> length content"
  then show "\<exists>hdr. ReadData W s = Raises NameError (s\<lparr>header := hdr\<rparr>)"
    using ReadData_in_file[OF assms] by blast
next
  fix S S'
  assume "Parse W S = Inr S' \<and> s \<in> set (drop (length (scan_list S)) (scan_list S'))"
  then obtain content d where
    "files W (fname s) = Some content" "doffset s = Some d" "d \<le> length content"
    using Parse_new_scans[of W S S' s] assms by blast
  then show "\<exists>hdr. ReadData W s = Raises NameError (s\<lparr>header := hdr\<rparr>)"
    using ReadData_in_file[OF assms] by blast
qed

theorem ReadData_raises_NameError_witness:
  "scan_status (example_scan 1 (Some 71) OK) \<noteq> NODATA \<and>
   Parse (one_file_world complete_file) opened =
     Inr (opened\<lparr>scan_list := [example_scan 1 (Some 71) OK], last_offset := Some 71\<rparr>) \<and>
   (\<exists>hdr. ReadData (one_file_world complete_file) (example_scan 1 (Some 71) OK) =
      Raises NameError ((example_scan 1 (Some 71) OK)\<lparr>header := hdr\<rparr>))"
proof -
  let ?s = "example_scan 1 (Some 71) OK"
  have h: "scan_status ?s \<noteq> NODATA" by code_simp
  have m: "?s \<in> set (drop (length (scan_list opened))
      (scan_list (opened\<lparr>scan_list := [?s], last_offset := Some 71\<rparr>)))"
    by (simp add: opened_def new_specfile_def)
  from ReadData_raises_NameError[OF h, of "one_file_world complete_file"]
  have "\<forall>S S'. Parse (one_file_world complete_file) S = Inr S' \<and>
      ?s \<in> set (drop (length (scan_list S)) (scan_list S')) \<longrightarrow>
      (\<exists>hdr. ReadData (one_file_world complete_file) ?s = Raises NameError (?s\<lparr>header := hdr\<rparr>))"
    by blast
  with parsed_complete_file m h show ?thesis by blast
qed

text \<open>
  The claim as stated fails, since it speaks of every record whose status is not
  NODATA: \<open>ReadData\<close> opens the file and reads the header before it builds the type
  descriptor. For a record whose file is gone it raises IOError; for a record whose
  file has become shorter than the data offset the header loop never ends; for a
  record without data offset the comparison of the header loop raises TypeError. None
  of them produces a table.
\<close>

theorem ReadData_counterexample:
  "scan_status (example_scan 1 (Some 71) OK) \<noteq> NODATA \<and>
   ReadData (example_world []) (example_scan 1 (Some 71) OK) =
     Raises IOError (example_scan 1 (Some 71) OK) \<and>
   ReadData (one_file_world (text_lines [''#RUN 1''])) (example_scan 1 (Some 71) OK) = Diverges \<and>
   scan_status (example_scan 1 None OK) \<noteq> NODATA \<and>
   ReadData (one_file_world complete_file) (example_scan 1 None OK) =
     Raises TypeError (example_scan 1 None OK)"
  by code_simp

text \<open>
  Claim C7 states that a data row with a field count different from the column schema
  demotes the scan to NODATA. The code does not get there: for the scan of a file
  whose first data row has one field for two columns, \<open>ReadData\<close> raises NameError at
  the type descriptor, and the status of the scan stays OK.
\<close>

theorem ReadData_short_row_raises:
  "Parse (one_file_world short_row_file) opened =
     Inr (opened\<lparr>scan_list := [example_scan 1 (Some 71) OK], last_offset := Some 71\<rparr>) \<and>
   ReadData (one_file_world short_row_file) (example_scan 1 (Some 71) OK) =
     Raises NameError ((example_scan 1 (Some 71) OK)\<lparr>header :=
       [''#RUN 1'', ''#CMD ascan th 0 2 2 1'', ''#TIM Mon Jan 01 12:00:00 2020'',
        ''#COL th det'']\<rparr>) \<and>
   scan_status (example_scan 1 (Some 71) OK) = OK \<and>
   colnames (example_scan 1 (Some 71) OK) = [''th'', ''det'']"
  by code_simp

end
